theory Spec2Isabelle
  imports Complex_Main "HOL-Library.Word" "HOL-Library.Sublist"
begin

section \<open>JavaScript values\<close>

text \<open>
  A JavaScript string is a sequence of 16-bit code units. String literals of the source
  are ASCII and are written \<open>ascii ''...''\<close>. JavaScript numbers that hold sizes, status
  codes and pixel counts are naturals. The confidence score is an IEEE double
  (\<open>js_number\<close> below), and its product with 100 is the rounded product of doubles.
\<close>

type_synonym js_string = "16 word list"

definition ascii :: "string \<Rightarrow> js_string" where
  "ascii s = map of_char s"

text \<open>Template literal \<open>`${n}`\<close> for a non-negative integer: its decimal digits.\<close>

function decimal :: "nat \<Rightarrow> js_string" where
  "decimal n = (if n < 10 then [of_nat (48 + n)]
                else decimal (n div 10) @ [of_nat (48 + n mod 10)])"
  by pat_completeness auto
termination
  by (relation "measure (\<lambda>n. n)") auto

text \<open>
  \<open>s.replace(/_+/g, " ")\<close>: the scan goes left to right; where the greedy pattern
  \<open>_+\<close> matches, the whole match is replaced by one space and the scan goes on behind it;
  any other code unit is copied.
\<close>

definition underscore :: "16 word" where
  "underscore = 0x5F"

definition space :: "16 word" where
  "space = 0x20"

function replaceUnderscoreRuns :: "js_string \<Rightarrow> js_string" where
  "replaceUnderscoreRuns [] = []"
| "replaceUnderscoreRuns (c # cs) =
     (if c = underscore
      then space # replaceUnderscoreRuns (dropWhile (\<lambda>d. d = underscore) cs)
      else c # replaceUnderscoreRuns cs)"
  by pat_completeness auto
termination
  by (relation "measure length") (auto simp: length_dropWhile_le less_Suc_eq_le)

text \<open>
  \<open>String.prototype.trim\<close> removes the code units of ECMAScript's WhiteSpace and
  LineTerminator productions from both ends.
\<close>

definition isWhiteSpace :: "16 word \<Rightarrow> bool" where
  "isWhiteSpace c \<longleftrightarrow>
     c \<in> {0x09, 0x0A, 0x0B, 0x0C, 0x0D, 0x20, 0xA0, 0x1680, 0x2028, 0x2029, 0x202F,
          0x205F, 0x3000, 0xFEFF} \<or> (0x2000 \<le> c \<and> c \<le> 0x200A)"

definition trim :: "js_string \<Rightarrow> js_string" where
  "trim s = rev (dropWhile isWhiteSpace (rev (dropWhile isWhiteSpace s)))"

text \<open>
  The words of the claim about the label, for comparison with \<open>replaceUnderscoreRuns\<close>:
  the string is cut into its maximal runs of underscores and of other code units, and
  every run of underscores becomes one space.
\<close>

function maximalRuns :: "js_string \<Rightarrow> js_string list" where
  "maximalRuns [] = []"
| "maximalRuns (c # cs) =
     (c # takeWhile (\<lambda>d. (d = underscore) = (c = underscore)) cs)
       # maximalRuns (dropWhile (\<lambda>d. (d = underscore) = (c = underscore)) cs)"
  by pat_completeness auto
termination
  by (relation "measure length") (auto simp: length_dropWhile_le less_Suc_eq_le)

fun runReplaced :: "js_string \<Rightarrow> js_string" where
  "runReplaced [] = []"
| "runReplaced (c # cs) = (if c = underscore then [space] else c # cs)"

definition underscoreRunsReplaced :: "js_string \<Rightarrow> js_string" where
  "underscoreRunsReplaced s = concat (map runReplaced (maximalRuns s))"

text \<open>
  A JavaScript number: a finite double, given by its value, an infinity or \<open>NaN\<close>. The
  two zeros are not told apart.
\<close>

datatype js_number = Finite rat | PosInfinity | NegInfinity | NaN

text \<open>
  Rounding to the nearest double, ties to even (IEEE 754 binary64). For \<open>a > 0\<close>,
  \<open>binaryExponent a\<close> is the \<open>e\<close> with \<open>2 ^ e \<le> a < 2 ^ (e + 1)\<close>; doubles near \<open>a\<close> are the
  multiples of \<open>2 ^ (e - 52)\<close>, and of \<open>2 ^ - 1074\<close> in the subnormal range; a rounded
  magnitude of \<open>2 ^ 1024\<close> or more is an infinity.
\<close>

function bitLength :: "nat \<Rightarrow> nat" where
  "bitLength n = (if n = 0 then 0 else Suc (bitLength (n div 2)))"
  by pat_completeness auto
termination
  by (relation "measure (\<lambda>n. n)") auto

definition binaryExponent :: "rat \<Rightarrow> int" where
  "binaryExponent a =
     (if 1 \<le> a then int (bitLength (nat \<lfloor>a\<rfloor>)) - 1
      else - int (bitLength (nat (\<lceil>1 / a\<rceil> - 1))))"

definition roundHalfEven :: "rat \<Rightarrow> int" where
  "roundHalfEven x =
     (let n = \<lfloor>x\<rfloor>; d = x - of_int n
      in if d < 1 / 2 then n else if 1 / 2 < d then n + 1 else if even n then n else n + 1)"

definition roundMagnitude :: "rat \<Rightarrow> rat" where
  "roundMagnitude a =
     (let e = max (binaryExponent a) (- 1022); ulp = 2 powi (e - 52)
      in of_int (roundHalfEven (a / ulp)) * ulp)"

definition toDouble :: "rat \<Rightarrow> js_number" where
  "toDouble x =
     (if x = 0 then Finite 0
      else if 2 powi 1024 \<le> roundMagnitude \<bar>x\<bar>
      then (if 0 < x then PosInfinity else NegInfinity)
      else Finite (if 0 < x then roundMagnitude \<bar>x\<bar> else - roundMagnitude \<bar>x\<bar>))"

text \<open>The operator \<open>*\<close> on numbers.\<close>

definition infinityTimes :: "rat \<Rightarrow> js_number" where
  "infinityTimes a = (if a = 0 then NaN else if 0 < a then PosInfinity else NegInfinity)"

fun multiply :: "js_number \<Rightarrow> js_number \<Rightarrow> js_number" where
  "multiply (Finite a) (Finite b) = toDouble (a * b)"
| "multiply (Finite a) PosInfinity = infinityTimes a"
| "multiply (Finite a) NegInfinity = infinityTimes (- a)"
| "multiply PosInfinity (Finite b) = infinityTimes b"
| "multiply NegInfinity (Finite b) = infinityTimes (- b)"
| "multiply PosInfinity PosInfinity = PosInfinity"
| "multiply PosInfinity NegInfinity = NegInfinity"
| "multiply NegInfinity PosInfinity = NegInfinity"
| "multiply NegInfinity NegInfinity = PosInfinity"
| "multiply NaN y = NaN"
| "multiply x NaN = NaN"

text \<open>
  A JSON document as the server wrote it; an object keeps its members in source order. A
  number is kept as the decimal written in the text; \<open>JSON.parse\<close> hands the program the
  nearest double, \<open>toDouble\<close> of it.
\<close>

datatype json =
    JNull
  | JBool bool
  | JNum rat
  | JStr js_string
  | JArr "json list"
  | JObj "(js_string \<times> json) list"

text \<open>
  Reading a data property of a non-null value: \<open>None\<close> is \<open>undefined\<close>. A later member of
  an object overrides an earlier one of the same name. The code reads only the properties
  \<open>disease\<close>, \<open>confidence\<close> and \<open>description\<close>, which numbers, booleans, strings and arrays
  do not have.
\<close>

fun property :: "json \<Rightarrow> js_string \<Rightarrow> json option" where
  "property (JObj members) key = map_of (rev members) key"
| "property _ key = None"

fun truthy :: "json option \<Rightarrow> bool" where
  "truthy None = False"
| "truthy (Some JNull) = False"
| "truthy (Some (JBool b)) = b"
| "truthy (Some (JNum x)) = (toDouble x \<noteq> Finite 0)"
| "truthy (Some (JStr s)) = (s \<noteq> [])"
| "truthy (Some (JArr xs)) = True"
| "truthy (Some (JObj members)) = True"

text \<open>\<open>typeof v === "number"\<close>\<close>

fun isNumber :: "json option \<Rightarrow> bool" where
  "isNumber (Some (JNum x)) = True"
| "isNumber _ = False"

text \<open>\<open>v || ""\<close>\<close>

fun orEmptyString :: "json option \<Rightarrow> json" where
  "orEmptyString None = JStr []"
| "orEmptyString (Some v) = (if truthy (Some v) then v else JStr [])"

text \<open>
  What a \<open>catch\<close> clause can receive. \<open>ThrownTypeError m\<close> is an instance of \<open>TypeError\<close>
  (hence of \<open>Error\<close>) with message \<open>m\<close>; \<open>ThrownError m\<close> is an instance of \<open>Error\<close> that
  is not a \<open>TypeError\<close>; \<open>ThrownOther\<close> is any value that is not an \<open>Error\<close>.
\<close>

datatype thrown = ThrownTypeError js_string | ThrownError js_string | ThrownOther

section \<open>Files, blobs and the network\<close>

record js_file =
  file_name :: js_string
  file_type :: js_string
  file_size :: nat

text \<open>
  The blob that \<open>canvas.toBlob\<close> is asked for. \<open>draw_width\<close> and \<open>draw_height\<close> are the
  exact values of the scaled sides; the variables \<open>width\<close> and \<open>height\<close>, passed to
  \<open>drawImage\<close>, hold the doubles nearest to them. Assigning the variables to
  \<open>canvas.width\<close> and \<open>canvas.height\<close> converts them to unsigned integers, which drops the
  fraction: \<open>canvas_width\<close> and \<open>canvas_height\<close> are the pixel dimensions of the encoded
  image. For the sizes an image can have (below \<open>2 ^ 31\<close>) the nearest double has the
  integer part of the exact value, so the pixel dimensions are those of the code.
\<close>

record blob =
  blob_source :: js_file
  draw_width :: rat
  draw_height :: rat
  canvas_width :: nat
  canvas_height :: nat
  blob_type :: js_string
  blob_quality :: rat

definition toUnsignedLong :: "rat \<Rightarrow> nat" where
  "toUnsignedLong x = nat \<lfloor>x\<rfloor>"

record form_entry =
  field_name :: js_string
  field_blob :: blob
  field_filename :: js_string

record request =
  url :: js_string
  http_method :: js_string
  request_body :: "form_entry list option"

record response =
  ok :: bool
  status :: nat
  json_body :: "thrown + json"
  blob_body :: "thrown + nat"

text \<open>
  Everything the browser and the network decide: whether a 2D context exists, whether the
  file decodes and to which natural size, whether the canvas can be encoded, what \<open>fetch\<close>
  answers, whether the \<open>FileReader\<close> delivers a data URL, and the messages of the
  \<open>TypeError\<close>s the engine raises itself.
\<close>

record env =
  canvas_context :: bool
  image_size :: "js_file \<Rightarrow> (nat \<times> nat) option"
  to_blob :: "blob \<Rightarrow> bool"
  fetch :: "request \<Rightarrow> thrown + response"
  read_as_data_url :: "js_file \<Rightarrow> js_string option"
  null_read_error :: js_string
  not_callable_error :: js_string

section \<open>Component state\<close>

record analysis_result =
  disease :: js_string
  confidence :: js_number
  description :: json

datatype object_url = UrlOfFile js_file | UrlOfBlob blob

text \<open>
  The state both components declare with \<open>useState\<close>, and the list of requests handed to
  \<open>fetch\<close> so far (not a field of the source: it records the effect).
\<close>

record ui_state =
  isAnalyzing :: bool
  result :: "analysis_result option"
  error :: "js_string option"
  requests :: "request list"

record analyzer_state = ui_state +
  selectedFile :: "js_file option"
  previewUrl :: "object_url option"
  resizedImageUrl :: "object_url option"
  isDragActive :: bool

datatype view = Home | Analysis

record grove_state = ui_state +
  uploadedImage :: "js_string option"
  isDemoMode :: bool
  expandedFaq :: "nat option"
  mobileMenuOpen :: bool
  currentView :: view

definition analyzer_init :: analyzer_state where
  "analyzer_init = \<lparr>isAnalyzing = False, result = None, error = None, requests = [],
     selectedFile = None, previewUrl = None, resizedImageUrl = None, isDragActive = False\<rparr>"

definition grove_init :: grove_state where
  "grove_init = \<lparr>isAnalyzing = False, result = None, error = None, requests = [],
     uploadedImage = None, isDemoMode = False, expandedFaq = None, mobileMenuOpen = False,
     currentView = Home\<rparr>"

section \<open>Validation\<close>

definition validTypes :: "js_string list" where
  "validTypes = [ascii ''image/jpeg'', ascii ''image/jpg'', ascii ''image/png'',
                 ascii ''image/webp'']"

definition maxSize :: nat where
  "maxSize = 10 * 1024 * 1024"

definition typeErrorMessage :: js_string where
  "typeErrorMessage = ascii ''Please upload a valid image file (JPEG, PNG, or WebP)''"

definition sizeErrorMessage :: js_string where
  "sizeErrorMessage =
     ascii ''Image file is too large. Please upload an image smaller than 10MB''"

text \<open>\<open>validateFile\<close> of the analyzer widget.\<close>

definition validateFile :: "js_file \<Rightarrow> analyzer_state \<Rightarrow> bool \<times> analyzer_state" where
  "validateFile f st =
     (if file_type f \<notin> set validTypes then (False, st\<lparr>error := Some typeErrorMessage\<rparr>)
      else if file_size f > maxSize then (False, st\<lparr>error := Some sizeErrorMessage\<rparr>)
      else (True, st))"

text \<open>\<open>validateImage\<close> of the landing page.\<close>

definition validateImage :: "js_file \<Rightarrow> grove_state \<Rightarrow> bool \<times> grove_state" where
  "validateImage f st =
     (if file_type f \<notin> set validTypes then (False, st\<lparr>error := Some typeErrorMessage\<rparr>)
      else if file_size f > maxSize then (False, st\<lparr>error := Some sizeErrorMessage\<rparr>)
      else (True, st))"

section \<open>Resizing\<close>

text \<open>
  The body of \<open>img.onload\<close> in \<open>resizeImage\<close>: the new \<open>width\<close> and \<open>height\<close> for an
  image of natural size \<open>w\<close> by \<open>h\<close>, as exact values (the variables hold the nearest
  doubles, see \<open>blob\<close>). The new height is computed from the old width before the width
  is overwritten.
\<close>

definition resizeImage_dimensions :: "nat \<Rightarrow> nat \<Rightarrow> nat \<Rightarrow> rat \<times> rat" where
  "resizeImage_dimensions w h maxDimension =
     (if w > h
      then (if w > maxDimension
            then (of_nat maxDimension, of_nat (h * maxDimension) / of_nat w)
            else (of_nat w, of_nat h))
      else (if h > maxDimension
            then (of_nat (w * maxDimension) / of_nat h, of_nat maxDimension)
            else (of_nat w, of_nat h)))"

definition resizeImage :: "env \<Rightarrow> js_file \<Rightarrow> nat \<Rightarrow> thrown + blob" where
  "resizeImage env f maxDimension =
     (if \<not> canvas_context env then Inl (ThrownError (ascii ''Could not get canvas context''))
      else case image_size env f of
        None \<Rightarrow> Inl (ThrownError (ascii ''Failed to load image''))
      | Some (w, h) \<Rightarrow>
          (let (width, height) = resizeImage_dimensions w h maxDimension;
               b = \<lparr>blob_source = f, draw_width = width, draw_height = height,
                    canvas_width = toUnsignedLong width, canvas_height = toUnsignedLong height,
                    blob_type = ascii ''image/jpeg'', blob_quality = 9 / 10\<rparr>
           in if to_blob env b then Inr b
              else Inl (ThrownError (ascii ''Failed to create blob from canvas''))))"

text \<open>The same step in \<open>resizeAndCompressImage\<close> of the landing page.\<close>

definition maxWidth :: nat where
  "maxWidth = 512"

definition resizeAndCompressImage_dimensions :: "nat \<Rightarrow> nat \<Rightarrow> rat \<times> rat" where
  "resizeAndCompressImage_dimensions w h =
     (if w > maxWidth
      then (of_nat maxWidth, of_nat (h * maxWidth) / of_nat w)
      else (of_nat w, of_nat h))"

definition resizeAndCompressImage :: "env \<Rightarrow> js_file \<Rightarrow> thrown + blob" where
  "resizeAndCompressImage env f =
     (if \<not> canvas_context env then Inl (ThrownError (ascii ''Could not get canvas context''))
      else case image_size env f of
        None \<Rightarrow> Inl (ThrownError (ascii ''Failed to load image''))
      | Some (w, h) \<Rightarrow>
          (let (width, height) = resizeAndCompressImage_dimensions w h;
               b = \<lparr>blob_source = f, draw_width = width, draw_height = height,
                    canvas_width = toUnsignedLong width, canvas_height = toUnsignedLong height,
                    blob_type = ascii ''image/jpeg'', blob_quality = 8 / 10\<rparr>
           in if to_blob env b then Inr b
              else Inl (ThrownError (ascii ''Failed to create compressed image''))))"

text \<open>The pixel dimensions of the image a resize delivers, if it delivers one.\<close>

definition pixelSize :: "thrown + blob \<Rightarrow> (nat \<times> nat) option" where
  "pixelSize resized =
     (case resized of Inl err \<Rightarrow> None | Inr b \<Rightarrow> Some (canvas_width b, canvas_height b))"

section \<open>The analyzer widget\<close>

definition analyzeImage_request :: "blob \<Rightarrow> request" where
  "analyzeImage_request imageBlob =
     \<lparr>url = ascii ''https://grove-ai-5.onrender.com/predict'',
      http_method = ascii ''POST'',
      request_body = Some [\<lparr>field_name = ascii ''file'', field_blob = imageBlob,
                            field_filename = ascii ''image.jpg''\<rparr>]\<rparr>"

text \<open>The \<open>Error\<close> thrown for a response whose \<open>ok\<close> is false.\<close>

definition analyzeImage_statusError :: "nat \<Rightarrow> thrown" where
  "analyzeImage_statusError s =
     (if s = 404 then ThrownError (ascii ''The analysis service is temporarily unavailable.'')
      else if s = 500
      then ThrownError (ascii ''Server error occurred. Please try again in a few moments.'')
      else if s \<ge> 400 \<and> s < 500
      then ThrownError (ascii ''Invalid request. Please check your image and try again.'')
      else ThrownError (ascii ''Request failed with status '' @ decimal s))"

definition invalidFormatMessage :: js_string where
  "invalidFormatMessage = ascii ''Invalid response format from API''"

text \<open>
  From \<open>data.disease && ...\<close> to the end of the \<open>try\<close> block. Reading a property of
  \<open>null\<close> raises a \<open>TypeError\<close>, and so does calling \<open>replace\<close> on a value that is not a
  string.
\<close>

definition analyzeImage_accepts :: "json \<Rightarrow> bool" where
  "analyzeImage_accepts data \<longleftrightarrow>
     truthy (property data (ascii ''disease'')) \<and> isNumber (property data (ascii ''confidence''))"

definition analyzeImage_parse :: "env \<Rightarrow> json \<Rightarrow> thrown + analysis_result" where
  "analyzeImage_parse env data =
     (if data = JNull then Inl (ThrownTypeError (null_read_error env))
      else if analyzeImage_accepts data
      then (case (property data (ascii ''disease''), property data (ascii ''confidence'')) of
              (Some (JStr d), Some (JNum c)) \<Rightarrow>
                Inr \<lparr>disease = trim (replaceUnderscoreRuns d),
                     confidence = multiply (toDouble c) (Finite 100),
                     description = orEmptyString (property data (ascii ''description''))\<rparr>
            | _ \<Rightarrow> Inl (ThrownTypeError (not_callable_error env)))
      else Inl (ThrownError invalidFormatMessage))"

text \<open>The \<open>try\<close> block of \<open>analyzeImage\<close> from the answer of \<open>fetch\<close> on.\<close>

definition analyzeImage_try :: "env \<Rightarrow> blob \<Rightarrow> thrown + analysis_result" where
  "analyzeImage_try env imageBlob =
     (case fetch env (analyzeImage_request imageBlob) of
        Inl err \<Rightarrow> Inl err
      | Inr resp \<Rightarrow>
          if \<not> ok resp then Inl (analyzeImage_statusError (status resp))
          else (case json_body resp of
                  Inl err \<Rightarrow> Inl err
                | Inr data \<Rightarrow> analyzeImage_parse env data))"

text \<open>The message the \<open>catch\<close> block of either component passes to \<open>setError\<close>.\<close>

definition catchMessage :: "thrown \<Rightarrow> js_string" where
  "catchMessage err =
     (case err of
        ThrownTypeError m \<Rightarrow>
          if m = ascii ''Failed to fetch''
          then ascii ''Unable to connect to the analysis service. Please check your internet connection and try again.''
          else m
      | ThrownError m \<Rightarrow> m
      | ThrownOther \<Rightarrow> ascii ''Analysis failed. Please try again with a different image.'')"

text \<open>
  \<open>analyzeImage\<close> runs up to its first \<open>await\<close> in one piece (\<open>analyzeImage_begin\<close>: the
  three setters and the call of \<open>fetch\<close>) and, once the promises have settled, from the
  outcome of the \<open>try\<close> block to the end of \<open>finally\<close> in one piece
  (\<open>analyzeImage_settle\<close>). No state is written in between.
\<close>

definition analyzeImage_begin :: "blob \<Rightarrow> analyzer_state \<Rightarrow> analyzer_state" where
  "analyzeImage_begin imageBlob st =
     st\<lparr>isAnalyzing := True, error := None, result := None,
        requests := requests st @ [analyzeImage_request imageBlob]\<rparr>"

definition analyzeImage_settle ::
  "thrown + analysis_result \<Rightarrow> analyzer_state \<Rightarrow> analyzer_state" where
  "analyzeImage_settle outcome st =
     (case outcome of
        Inr r \<Rightarrow> st\<lparr>result := Some r\<rparr>
      | Inl err \<Rightarrow> st\<lparr>error := Some (catchMessage err)\<rparr>)\<lparr>isAnalyzing := False\<rparr>"

definition analyzeImage :: "env \<Rightarrow> blob \<Rightarrow> analyzer_state \<Rightarrow> analyzer_state" where
  "analyzeImage env imageBlob st =
     analyzeImage_settle (analyzeImage_try env imageBlob) (analyzeImage_begin imageBlob st)"

text \<open>
  \<open>processFile\<close>: the part before \<open>await resizeImage\<close> (\<open>processFile_begin\<close>, which says
  whether the file passed validation), and the part after it up to the first \<open>await\<close> of
  \<open>analyzeImage\<close> (\<open>processFile_resized\<close>, which hands on the blob to analyze, if any).
\<close>

definition processFile_begin :: "js_file \<Rightarrow> analyzer_state \<Rightarrow> bool \<times> analyzer_state" where
  "processFile_begin f st =
     (let (valid, st') = validateFile f (st\<lparr>error := None\<rparr>)
      in if \<not> valid then (False, st')
         else (True, st'\<lparr>selectedFile := Some f, previewUrl := Some (UrlOfFile f)\<rparr>))"

definition processingErrorMessage :: "thrown \<Rightarrow> js_string" where
  "processingErrorMessage err =
     (case err of
        ThrownTypeError m \<Rightarrow> m
      | ThrownError m \<Rightarrow> m
      | ThrownOther \<Rightarrow> ascii ''Failed to process image'')"

definition processFile_resized ::
  "thrown + blob \<Rightarrow> analyzer_state \<Rightarrow> blob option \<times> analyzer_state" where
  "processFile_resized resized st =
     (case resized of
        Inl err \<Rightarrow> (None, st\<lparr>error := Some (processingErrorMessage err)\<rparr>)
      | Inr resizedBlob \<Rightarrow>
          (Some resizedBlob,
           analyzeImage_begin resizedBlob (st\<lparr>resizedImageUrl := Some (UrlOfBlob resizedBlob)\<rparr>)))"

definition processFile :: "env \<Rightarrow> js_file \<Rightarrow> analyzer_state \<Rightarrow> analyzer_state" where
  "processFile env f st =
     (let (valid, st1) = processFile_begin f st
      in if \<not> valid then st1
         else (case processFile_resized (resizeImage env f 512) st1 of
                 (None, st2) \<Rightarrow> st2
               | (Some resizedBlob, st2) \<Rightarrow>
                   analyzeImage_settle (analyzeImage_try env resizedBlob) st2))"




definition handleDrop :: "env \<Rightarrow> js_file list \<Rightarrow> analyzer_state \<Rightarrow> analyzer_state" where
  "handleDrop env files st =
     (let st' = st\<lparr>isDragActive := False\<rparr>
      in case files of
           [] \<Rightarrow> st'
         | f # rest \<Rightarrow>
             if prefix (ascii ''image/'') (file_type f) then processFile env f st' else st')"



section \<open>The landing page\<close>

definition analyzeImageWithAPI_request :: "blob \<Rightarrow> request" where
  "analyzeImageWithAPI_request compressedBlob =
     \<lparr>url = ascii ''https://grove-ai-6.onrender.com/predict'',
      http_method = ascii ''POST'',
      request_body = Some [\<lparr>field_name = ascii ''file'', field_blob = compressedBlob,
                            field_filename = ascii ''image.jpg''\<rparr>]\<rparr>"

definition analyzeImageWithAPI_statusError :: "nat \<Rightarrow> thrown" where
  "analyzeImageWithAPI_statusError s =
     (if s = 404 then ThrownError (ascii ''The service may be temporarily unavailable.'')
      else if s = 500
      then ThrownError (ascii ''Server error occurred. Please try again in a few moments.'')
      else if s \<ge> 400 \<and> s < 500
      then ThrownError (ascii ''Invalid request. Please check your image format and try again.'')
      else ThrownError (ascii ''API request failed with status '' @ decimal s))"

definition analyzeImageWithAPI_accepts :: "json \<Rightarrow> bool" where
  "analyzeImageWithAPI_accepts data \<longleftrightarrow>
     truthy (property data (ascii ''disease'')) \<and> isNumber (property data (ascii ''confidence''))
     \<and> truthy (property data (ascii ''description''))"

definition analyzeImageWithAPI_parse :: "env \<Rightarrow> json \<Rightarrow> thrown + analysis_result" where
  "analyzeImageWithAPI_parse env data =
     (if data = JNull then Inl (ThrownTypeError (null_read_error env))
      else if analyzeImageWithAPI_accepts data
      then (case (property data (ascii ''disease''), property data (ascii ''confidence''),
                  property data (ascii ''description'')) of
              (Some (JStr d), Some (JNum c), Some descr) \<Rightarrow>
                Inr \<lparr>disease = trim (replaceUnderscoreRuns d),
                     confidence = multiply (toDouble c) (Finite 100),
                     description = descr\<rparr>
            | _ \<Rightarrow> Inl (ThrownTypeError (not_callable_error env)))
      else Inl (ThrownError invalidFormatMessage))"

text \<open>
  The \<open>try\<close> block of \<open>analyzeImageWithAPI\<close>: the requests it hands to \<open>fetch\<close> and its
  outcome. The image is resized inside the block, so a failed resize sends nothing.
\<close>

definition analyzeImageWithAPI_try ::
  "env \<Rightarrow> js_file \<Rightarrow> request list \<times> (thrown + analysis_result)" where
  "analyzeImageWithAPI_try env f =
     (case resizeAndCompressImage env f of
        Inl err \<Rightarrow> ([], Inl err)
      | Inr compressedBlob \<Rightarrow>
          ([analyzeImageWithAPI_request compressedBlob],
           case fetch env (analyzeImageWithAPI_request compressedBlob) of
             Inl err \<Rightarrow> Inl err
           | Inr resp \<Rightarrow>
               if \<not> ok resp then Inl (analyzeImageWithAPI_statusError (status resp))
               else (case json_body resp of
                       Inl err \<Rightarrow> Inl err
                     | Inr data \<Rightarrow> analyzeImageWithAPI_parse env data)))"

definition analyzeImageWithAPI_begin :: "grove_state \<Rightarrow> grove_state" where
  "analyzeImageWithAPI_begin st =
     st\<lparr>isAnalyzing := True, result := None, error := None, currentView := Analysis\<rparr>"

definition analyzeImageWithAPI_settle ::
  "request list \<times> (thrown + analysis_result) \<Rightarrow> grove_state \<Rightarrow> grove_state" where
  "analyzeImageWithAPI_settle tried st =
     (case snd tried of
        Inr r \<Rightarrow> st\<lparr>result := Some r\<rparr>
      | Inl err \<Rightarrow> st\<lparr>error := Some (catchMessage err), currentView := Home\<rparr>)
       \<lparr>isAnalyzing := False, requests := requests st @ fst tried\<rparr>"

definition analyzeImageWithAPI :: "env \<Rightarrow> js_file \<Rightarrow> grove_state \<Rightarrow> grove_state" where
  "analyzeImageWithAPI env f st =
     analyzeImageWithAPI_settle (analyzeImageWithAPI_try env f) (analyzeImageWithAPI_begin st)"

text \<open>
  \<open>handleDragDrop\<close>, and \<open>handleImageUpload\<close> once it has a file: validation first
  (\<open>handleDragDrop_begin\<close>), then, when the \<open>FileReader\<close> has loaded the file, the data
  URL is stored and the analysis started. A reader that never loads leaves the state as
  it is.
\<close>

definition handleDragDrop_begin :: "js_file \<Rightarrow> grove_state \<Rightarrow> bool \<times> grove_state" where
  "handleDragDrop_begin f st = validateImage f (st\<lparr>error := None\<rparr>)"

definition handleDragDrop :: "env \<Rightarrow> js_file \<Rightarrow> grove_state \<Rightarrow> grove_state" where
  "handleDragDrop env f st =
     (let (valid, st1) = handleDragDrop_begin f st
      in if \<not> valid then st1
         else (case read_as_data_url env f of
                 None \<Rightarrow> st1
               | Some dataUrl \<Rightarrow> analyzeImageWithAPI env f (st1\<lparr>uploadedImage := Some dataUrl\<rparr>)))"

definition handleImageUpload :: "env \<Rightarrow> js_file list \<Rightarrow> grove_state \<Rightarrow> grove_state" where
  "handleImageUpload env files st =
     (case files of
        [] \<Rightarrow> st
      | f # rest \<Rightarrow>
          (let (valid, st1) = validateImage f (st\<lparr>error := None\<rparr>)
           in if \<not> valid then st1
              else (case read_as_data_url env f of
                      None \<Rightarrow> st1
                    | Some dataUrl \<Rightarrow>
                        analyzeImageWithAPI env f (st1\<lparr>uploadedImage := Some dataUrl\<rparr>))))"

text \<open>The \<open>onDrop\<close> handler of the upload area.\<close>

definition onDrop :: "env \<Rightarrow> js_file list \<Rightarrow> grove_state \<Rightarrow> grove_state" where
  "onDrop env files st =
     (case files of
        [] \<Rightarrow> st
      | f # rest \<Rightarrow>
          if prefix (ascii ''image/'') (file_type f) then handleDragDrop env f st else st)"








section \<open>Runs of user actions\<close>







section \<open>Sample inputs\<close>

text \<open>Concrete files, browsers and server answers, used to run the model.\<close>

definition pngFile :: "nat \<Rightarrow> js_file" where
  "pngFile n = \<lparr>file_name = ascii ''leaf.png'', file_type = ascii ''image/png'', file_size = n\<rparr>"

definition gifFile :: "nat \<Rightarrow> js_file" where
  "gifFile n = \<lparr>file_name = ascii ''leaf.gif'', file_type = ascii ''image/gif'', file_size = n\<rparr>"

definition textFile :: "nat \<Rightarrow> js_file" where
  "textFile n = \<lparr>file_name = ascii ''notes.txt'', file_type = ascii ''text/plain'', file_size = n\<rparr>"

definition browser :: "nat \<times> nat \<Rightarrow> thrown + response \<Rightarrow> env" where
  "browser dims answer =
     \<lparr>canvas_context = True, image_size = (\<lambda>f. Some dims), to_blob = (\<lambda>b. True),
      fetch = (\<lambda>r. answer), read_as_data_url = (\<lambda>f. Some (ascii ''data:image/png;base64,'')),
      null_read_error = ascii ''Cannot read properties of null'',
      not_callable_error = ascii ''data.disease.replace is not a function''\<rparr>"

definition offline :: "thrown + response" where
  "offline = Inl (ThrownTypeError (ascii ''Failed to fetch''))"

definition answer :: "bool \<Rightarrow> nat \<Rightarrow> json \<Rightarrow> thrown + response" where
  "answer isOk code body =
     Inr \<lparr>ok = isOk, status = code, json_body = Inr body, blob_body = Inr 0\<rparr>"

definition diagnosis :: json where
  "diagnosis = JObj [(ascii ''disease'', JStr (ascii ''__Tomato___Early_blight_'')),
                     (ascii ''confidence'', JNum (93 / 100))]"

definition describedDiagnosis :: json where
  "describedDiagnosis = JObj [(ascii ''disease'', JStr (ascii ''__Tomato___Early_blight_'')),
                              (ascii ''confidence'', JNum (93 / 100)),
                              (ascii ''description'', JStr (ascii ''A fungal disease.''))]"

definition unnamedDiagnosis :: json where
  "unnamedDiagnosis = JObj [(ascii ''disease'', JStr []), (ascii ''confidence'', JNum 1)]"

definition uncertainDiagnosis :: json where
  "uncertainDiagnosis = JObj [(ascii ''disease'', JStr (ascii ''Apple___Apple_scab'')),
                              (ascii ''confidence'', JNum (57 / 100)),
                              (ascii ''description'', JStr (ascii ''A fungal disease.''))]"

text \<open>
  A network in which only the widget's endpoint answers, with status 404; any other
  request fails.
\<close>

definition widgetOnly404 :: env where
  "widgetOnly404 = (browser (10, 10) offline)
     \<lparr>fetch := (\<lambda>r. if url r = ascii ''https://grove-ai-5.onrender.com/predict''
                     then answer False 404 JNull else offline)\<rparr>"

definition noCanvas :: env where
  "noCanvas = (browser (10, 10) offline)\<lparr>canvas_context := False\<rparr>"

definition smallBlob :: "rat \<Rightarrow> blob" where
  "smallBlob q = \<lparr>blob_source = pngFile 5000, draw_width = 10, draw_height = 10,
                  canvas_width = 10, canvas_height = 10, blob_type = ascii ''image/jpeg'',
                  blob_quality = q\<rparr>"



chapter \<open>Properties\<close>

section \<open>Validation\<close>

text \<open>
  Claim C3. \<open>validateFile\<close> and \<open>validateImage\<close> accept a file exactly when its type is one
  of the four MIME types and its size is at most \<open>10 * 1024 * 1024\<close> bytes. A wrong type
  sets the type message whatever the size, a right type with a size over the limit sets
  the size message, and an accepted file leaves the state as it was.
\<close>

theorem validation_accepts_iff:
  "(fst (validateFile f st) \<longleftrightarrow>
      file_type f \<in> {ascii ''image/jpeg'', ascii ''image/jpg'', ascii ''image/png'', ascii ''image/webp''}
      \<and> file_size f \<le> 10 * 1024 * 1024)
   \<and> (fst (validateImage f gs) \<longleftrightarrow>
      file_type f \<in> {ascii ''image/jpeg'', ascii ''image/jpg'', ascii ''image/png'', ascii ''image/webp''}
      \<and> file_size f \<le> 10 * 1024 * 1024)
   \<and> (file_type f \<notin> {ascii ''image/jpeg'', ascii ''image/jpg'', ascii ''image/png'', ascii ''image/webp''}
        \<longrightarrow> error (snd (validateFile f st)) = Some typeErrorMessage
          \<and> error (snd (validateImage f gs)) = Some typeErrorMessage)
   \<and> (file_type f \<in> {ascii ''image/jpeg'', ascii ''image/jpg'', ascii ''image/png'', ascii ''image/webp''}
        \<and> file_size f > 10 * 1024 * 1024
        \<longrightarrow> error (snd (validateFile f st)) = Some sizeErrorMessage
          \<and> error (snd (validateImage f gs)) = Some sizeErrorMessage)
   \<and> (fst (validateFile f st) \<longrightarrow> snd (validateFile f st) = st)
   \<and> (fst (validateImage f gs) \<longrightarrow> snd (validateImage f gs) = gs)
   \<and> typeErrorMessage \<noteq> sizeErrorMessage"
  by (auto simp: validateFile_def validateImage_def validTypes_def maxSize_def
        typeErrorMessage_def sizeErrorMessage_def ascii_def)

theorem validation_accepts_iff_witness:
  "fst (validateFile (pngFile 10485760) analyzer_init)
   \<and> fst (validateImage (pngFile 10485760) grove_init)
   \<and> error (snd (validateFile (pngFile 10485761) analyzer_init)) = Some sizeErrorMessage
   \<and> error (snd (validateImage (pngFile 10485761) grove_init)) = Some sizeErrorMessage
   \<and> error (snd (validateFile (gifFile 10485761) analyzer_init)) = Some typeErrorMessage
   \<and> error (snd (validateImage (gifFile 10485761) grove_init)) = Some typeErrorMessage
   \<and> snd (validateFile (pngFile 10485760) analyzer_init) = analyzer_init
   \<and> snd (validateImage (pngFile 10485760) grove_init) = grove_init"
  using validation_accepts_iff [of "pngFile 10485760" analyzer_init grove_init]
    validation_accepts_iff [of "pngFile 10485761" analyzer_init grove_init]
    validation_accepts_iff [of "gifFile 10485761" analyzer_init grove_init]
  by (simp add: pngFile_def gifFile_def ascii_def)


section \<open>Resizing\<close>

lemma toUnsignedLong_of_nat [simp]: "toUnsignedLong (of_nat n) = n"
  by (simp add: toUnsignedLong_def)

lemma floor_rat_numeral:
  "\<lfloor>(numeral a :: rat) / numeral b\<rfloor> = numeral a div numeral b"
  using floor_divide_of_int_eq [of "numeral a" "numeral b", where ?'a = rat] by simp

lemma toUnsignedLong_lt:
  assumes "x < of_nat n" "0 < n"
  shows "toUnsignedLong x < n"
proof -
  have "\<lfloor>x\<rfloor> < int n" using assms(1) by (simp add: floor_less_iff)
  then show ?thesis unfolding toUnsignedLong_def using assms(2) by linarith
qed

lemma scaled_lt:
  fixes a b m :: nat
  assumes "a < b" "0 < m"
  shows "(of_nat (a * m) :: rat) / of_nat b < of_nat m"
proof -
  have "a * m < m * b" using assms by (simp add: mult.commute)
  then have "(of_nat (a * m) :: rat) < of_nat m * of_nat b"
    by (metis of_nat_less_iff of_nat_mult)
  then show ?thesis using assms by (simp add: pos_divide_less_eq)
qed

lemma dimensions_agree:
  "resizeImage_dimensions w h 512 = resizeAndCompressImage_dimensions w h \<longleftrightarrow> h \<le> w \<or> h \<le> 512"
proof (cases "h < w")
  case True
  then show ?thesis
    by (auto simp: resizeImage_dimensions_def resizeAndCompressImage_dimensions_def maxWidth_def)
next
  case False
  note nlt = this
  show ?thesis
  proof (cases "h \<le> 512")
    case True
    then show ?thesis using nlt
      by (auto simp: resizeImage_dimensions_def resizeAndCompressImage_dimensions_def maxWidth_def)
  next
    case hbig: False
    show ?thesis
    proof (cases "h = w")
      case True
      then show ?thesis using hbig
        by (auto simp: resizeImage_dimensions_def resizeAndCompressImage_dimensions_def maxWidth_def)
    next
      case False
      then have wh: "w < h" using nlt by simp
      have "(of_nat (w * 512) :: rat) / of_nat h < 512"
        using scaled_lt [of w h 512] wh by simp
      then show ?thesis using wh hbig
        by (auto simp: resizeImage_dimensions_def resizeAndCompressImage_dimensions_def maxWidth_def)
    qed
  qed
qed



lemma resizeImage_Inr:
  assumes "image_size env f = Some (w, h)" "resizeImage env f m = Inr b"
  shows "(draw_width b, draw_height b) = resizeImage_dimensions w h m
    \<and> canvas_width b = toUnsignedLong (draw_width b)
    \<and> canvas_height b = toUnsignedLong (draw_height b)
    \<and> blob_source b = f \<and> blob_type b = ascii ''image/jpeg'' \<and> blob_quality b = 9 / 10"
  using assms
  by (auto simp: resizeImage_def Let_def split: if_splits prod.splits)

lemma resizeAndCompressImage_Inr:
  assumes "image_size env f = Some (w, h)" "resizeAndCompressImage env f = Inr b"
  shows "(draw_width b, draw_height b) = resizeAndCompressImage_dimensions w h
    \<and> canvas_width b = toUnsignedLong (draw_width b)
    \<and> canvas_height b = toUnsignedLong (draw_height b)
    \<and> blob_source b = f \<and> blob_type b = ascii ''image/jpeg'' \<and> blob_quality b = 8 / 10"
  using assms
  by (auto simp: resizeAndCompressImage_def Let_def split: if_splits prod.splits)

lemma resize_succeeds:
  assumes "image_size env f = Some (w, h)" "canvas_context env" "\<forall>b. to_blob env b"
  shows "(\<exists>b. resizeImage env f m = Inr b) \<and> (\<exists>b. resizeAndCompressImage env f = Inr b)"
  using assms
  by (auto simp: resizeImage_def resizeAndCompressImage_def Let_def split: prod.splits)

lemma toUnsignedLong_quotient: "toUnsignedLong (of_nat a / of_nat b) = a div b"
  by (simp add: toUnsignedLong_def floor_divide_of_nat_eq)

lemma toUnsignedLong_scaled: "toUnsignedLong (of_nat a * 512 / of_nat b) = a * 512 div b"
  using toUnsignedLong_quotient [of "a * 512" b] by simp

lemma toUnsignedLong_512: "toUnsignedLong 512 = 512"
  by (simp add: toUnsignedLong_def)

lemma resizeImage_pixels:
  assumes "image_size env f = Some (w, h)" "resizeImage env f 512 = Inr b"
  shows "(canvas_width b, canvas_height b) =
    (if h < w then (if 512 < w then (512, h * 512 div w) else (w, h))
     else (if 512 < h then (w * 512 div h, 512) else (w, h)))"
proof -
  note d = resizeImage_Inr [OF assms]
  have "canvas_width b = toUnsignedLong (fst (resizeImage_dimensions w h 512))"
    and "canvas_height b = toUnsignedLong (snd (resizeImage_dimensions w h 512))"
    using d by (metis fst_conv, metis snd_conv)
  then show ?thesis
    by (simp add: resizeImage_dimensions_def toUnsignedLong_scaled toUnsignedLong_512)
qed

lemma resizeAndCompressImage_pixels:
  assumes "image_size env f = Some (w, h)" "resizeAndCompressImage env f = Inr b"
  shows "(canvas_width b, canvas_height b) =
    (if 512 < w then (512, h * 512 div w) else (w, h))"
proof -
  note d = resizeAndCompressImage_Inr [OF assms]
  have "canvas_width b = toUnsignedLong (fst (resizeAndCompressImage_dimensions w h))"
    and "canvas_height b = toUnsignedLong (snd (resizeAndCompressImage_dimensions w h))"
    using d by (metis fst_conv, metis snd_conv)
  then show ?thesis
    by (simp add: resizeAndCompressImage_dimensions_def maxWidth_def toUnsignedLong_scaled
          toUnsignedLong_512)
qed

lemma scaled_side_le:
  fixes a b :: nat
  assumes "a \<le> b" "0 < b"
  shows "a * 512 div b \<le> 512"
proof -
  have "a * 512 \<le> b * 512" using assms(1) by simp
  then have "a * 512 div b \<le> b * 512 div b" by (rule div_le_mono)
  moreover have "b * 512 div b = 512" using assms(2) by simp
  ultimately show ?thesis by simp
qed

text \<open>
  Claim C1, as the code has it, in pixels. For an image of natural size \<open>w\<close> by \<open>h\<close>, the
  canvas of \<open>resizeImage\<close> (called with 512) is at most 512 wide and at most 512 high: an
  image with a side over 512 gets 512 for its longer side and, for the other side, the
  integer part of that side times 512 over the longer side, so the ratio is kept up to the
  truncation to whole pixels; an image within 512 by 512 keeps its size. The canvas of
  \<open>resizeAndCompressImage\<close> is bounded in width only: an image more than 512 wide gets the
  width 512 and the height \<open>h * 512 div w\<close>, an image at most 512 wide keeps its size
  whatever its height; the height is at most 512 when \<open>h \<le> w\<close> or \<open>h \<le> 512\<close>. Both
  functions deliver a blob whenever the 2D context exists and the canvas can be encoded.
\<close>

theorem resize_fits_and_keeps_ratio:
  assumes "image_size env f = Some (w, h)"
  shows "(resizeImage env f 512 = Inr b \<longrightarrow>
            canvas_width b \<le> 512 \<and> canvas_height b \<le> 512
            \<and> (h < w \<and> 512 < w \<longrightarrow>
                 canvas_width b = 512 \<and> canvas_height b = h * 512 div w)
            \<and> (w \<le> h \<and> 512 < h \<longrightarrow>
                 canvas_width b = w * 512 div h \<and> canvas_height b = 512)
            \<and> (w \<le> 512 \<and> h \<le> 512 \<longrightarrow> canvas_width b = w \<and> canvas_height b = h))
       \<and> (resizeAndCompressImage env f = Inr b' \<longrightarrow>
            canvas_width b' \<le> 512
            \<and> (512 < w \<longrightarrow> canvas_width b' = 512 \<and> canvas_height b' = h * 512 div w)
            \<and> (w \<le> 512 \<longrightarrow> canvas_width b' = w \<and> canvas_height b' = h)
            \<and> (h \<le> w \<or> h \<le> 512 \<longrightarrow> canvas_height b' \<le> 512))
       \<and> (canvas_context env \<and> (\<forall>c. to_blob env c) \<longrightarrow>
            (\<exists>c. resizeImage env f 512 = Inr c) \<and> (\<exists>c. resizeAndCompressImage env f = Inr c))"
proof (intro conjI impI)
  assume r: "resizeImage env f 512 = Inr b"
  note p = resizeImage_pixels [OF assms r]
  show "canvas_width b \<le> 512"
    using p scaled_side_le [of w h] by (auto split: if_splits)
  show "canvas_height b \<le> 512"
    using p scaled_side_le [of h w] by (auto split: if_splits)
  {
    assume "h < w \<and> 512 < w"
    then show "canvas_width b = 512" "canvas_height b = h * 512 div w"
      using p by simp_all
  }
  {
    assume "w \<le> h \<and> 512 < h"
    then show "canvas_width b = w * 512 div h" "canvas_height b = 512"
      using p by simp_all
  }
  {
    assume "w \<le> 512 \<and> h \<le> 512"
    then show "canvas_width b = w" "canvas_height b = h"
      using p by (simp_all split: if_splits)
  }
next
  assume r: "resizeAndCompressImage env f = Inr b'"
  note p = resizeAndCompressImage_pixels [OF assms r]
  show "canvas_width b' \<le> 512"
    using p by (auto split: if_splits)
  {
    assume "512 < w"
    then show "canvas_width b' = 512" "canvas_height b' = h * 512 div w"
      using p by simp_all
  }
  {
    assume "w \<le> 512"
    then show "canvas_width b' = w" "canvas_height b' = h"
      using p by simp_all
  }
  {
    assume "h \<le> w \<or> h \<le> 512"
    then show "canvas_height b' \<le> 512"
      using p scaled_side_le [of h w] by (auto split: if_splits)
  }
next
  assume "canvas_context env \<and> (\<forall>c. to_blob env c)"
  then show "\<exists>c. resizeImage env f 512 = Inr c" "\<exists>c. resizeAndCompressImage env f = Inr c"
    using resize_succeeds [OF assms, of 512] by simp_all
qed

lemma resize_samples:
  "resizeImage (browser (1000, 333) offline) (pngFile 5000) 512 =
     Inr \<lparr>blob_source = pngFile 5000, draw_width = 512, draw_height = 21312 / 125,
          canvas_width = 512, canvas_height = 170, blob_type = ascii ''image/jpeg'',
          blob_quality = 9 / 10\<rparr>"
  "resizeAndCompressImage (browser (1000, 333) offline) (pngFile 5000) =
     Inr \<lparr>blob_source = pngFile 5000, draw_width = 512, draw_height = 21312 / 125,
          canvas_width = 512, canvas_height = 170, blob_type = ascii ''image/jpeg'',
          blob_quality = 8 / 10\<rparr>"
  "resizeImage (browser (333, 1000) offline) (pngFile 5000) 512 =
     Inr \<lparr>blob_source = pngFile 5000, draw_width = 21312 / 125, draw_height = 512,
          canvas_width = 170, canvas_height = 512, blob_type = ascii ''image/jpeg'',
          blob_quality = 9 / 10\<rparr>"
  "resizeAndCompressImage (browser (100, 2000) offline) (pngFile 5000) =
     Inr \<lparr>blob_source = pngFile 5000, draw_width = 100, draw_height = 2000,
          canvas_width = 100, canvas_height = 2000, blob_type = ascii ''image/jpeg'',
          blob_quality = 8 / 10\<rparr>"
  "resizeImage (browser (300, 200) offline) (pngFile 5000) 512 =
     Inr \<lparr>blob_source = pngFile 5000, draw_width = 300, draw_height = 200,
          canvas_width = 300, canvas_height = 200, blob_type = ascii ''image/jpeg'',
          blob_quality = 9 / 10\<rparr>"
  by (simp_all add: browser_def resizeImage_def resizeAndCompressImage_def
        resizeImage_dimensions_def resizeAndCompressImage_dimensions_def maxWidth_def
        toUnsignedLong_def floor_rat_numeral)

lemma browser_image_size [simp]: "image_size (browser dims a) f = Some dims"
  by (simp add: browser_def)

theorem resize_fits_and_keeps_ratio_witness:
  "pixelSize (resizeImage (browser (1000, 333) offline) (pngFile 5000) 512) = Some (512, 170)
   \<and> pixelSize (resizeAndCompressImage (browser (1000, 333) offline) (pngFile 5000))
       = Some (512, 170)
   \<and> pixelSize (resizeImage (browser (333, 1000) offline) (pngFile 5000) 512) = Some (170, 512)
   \<and> pixelSize (resizeAndCompressImage (browser (100, 2000) offline) (pngFile 5000))
       = Some (100, 2000)
   \<and> pixelSize (resizeImage (browser (300, 200) offline) (pngFile 5000) 512) = Some (300, 200)
   \<and> (333::nat) * 512 div 1000 = 170"
  using
    resize_fits_and_keeps_ratio [of "browser (1000, 333) offline" "pngFile 5000" 1000 333
      "\<lparr>blob_source = pngFile 5000, draw_width = 512, draw_height = 21312 / 125,
          canvas_width = 512, canvas_height = 170, blob_type = ascii ''image/jpeg'',
          blob_quality = 9 / 10\<rparr>"
      "\<lparr>blob_source = pngFile 5000, draw_width = 512, draw_height = 21312 / 125,
          canvas_width = 512, canvas_height = 170, blob_type = ascii ''image/jpeg'',
          blob_quality = 8 / 10\<rparr>"]
    resize_fits_and_keeps_ratio [of "browser (333, 1000) offline" "pngFile 5000" 333 1000
      "\<lparr>blob_source = pngFile 5000, draw_width = 21312 / 125, draw_height = 512,
          canvas_width = 170, canvas_height = 512, blob_type = ascii ''image/jpeg'',
          blob_quality = 9 / 10\<rparr>"]
    resize_fits_and_keeps_ratio [of "browser (100, 2000) offline" "pngFile 5000" 100 2000 _
      "\<lparr>blob_source = pngFile 5000, draw_width = 100, draw_height = 2000,
          canvas_width = 100, canvas_height = 2000, blob_type = ascii ''image/jpeg'',
          blob_quality = 8 / 10\<rparr>"]
    resize_fits_and_keeps_ratio [of "browser (300, 200) offline" "pngFile 5000" 300 200
      "\<lparr>blob_source = pngFile 5000, draw_width = 300, draw_height = 200,
          canvas_width = 300, canvas_height = 200, blob_type = ascii ''image/jpeg'',
          blob_quality = 9 / 10\<rparr>"]
  by (simp add: resize_samples pixelSize_def)

text \<open>
  Claim C1 as stated fails: the landing page leaves a 100 by 2000 image at height 2000,
  and the widget turns a 1000 by 333 image into 512 by 170 pixels, whose ratio is not that
  of the image.
\<close>

theorem resize_counterexample:
  "pixelSize (resizeAndCompressImage (browser (100, 2000) offline) (pngFile 5000))
     = Some (100, 2000)
   \<and> \<not> (2000::nat) \<le> 512
   \<and> pixelSize (resizeImage (browser (1000, 333) offline) (pngFile 5000) 512) = Some (512, 170)
   \<and> (512::nat) * 333 \<noteq> 1000 * 170"
  by (simp add: resize_samples pixelSize_def)

text \<open>
  Claim C2, as the code has it. Both functions encode as \<open>image/jpeg\<close>, the widget at
  quality 0.9 and the landing page at quality 0.8; they compute the same dimensions
  exactly for the images with \<open>h \<le> w\<close> or \<open>h \<le> 512\<close>.
\<close>

theorem resize_pipelines_compared:
  assumes "image_size env f = Some (w, h)"
    and "resizeImage env f 512 = Inr b"
    and "resizeAndCompressImage env f = Inr b'"
  shows "blob_type b = ascii ''image/jpeg'' \<and> blob_type b' = ascii ''image/jpeg''
    \<and> blob_quality b = 9 / 10 \<and> blob_quality b' = 8 / 10
    \<and> (draw_width b = draw_width b' \<and> draw_height b = draw_height b' \<longleftrightarrow> h \<le> w \<or> h \<le> 512)
    \<and> (canvas_width b = canvas_width b' \<and> canvas_height b = canvas_height b'
         \<longleftrightarrow> h \<le> w \<or> h \<le> 512)"
proof -
  note d = resizeImage_Inr [OF assms(1,2)]
  note d' = resizeAndCompressImage_Inr [OF assms(1,3)]
  have draw: "draw_width b = draw_width b' \<and> draw_height b = draw_height b' \<longleftrightarrow> h \<le> w \<or> h \<le> 512"
    using d d' dimensions_agree [of w h] by (metis prod.inject)
  have canvas: "canvas_width b = canvas_width b' \<and> canvas_height b = canvas_height b'
         \<longleftrightarrow> h \<le> w \<or> h \<le> 512"
  proof (cases "h \<le> w \<or> h \<le> 512")
    case True
    then show ?thesis using draw d d' by simp
  next
    case False
    then have wh: "w < h" and hbig: "512 < h" by simp_all
    have b: "draw_width b = of_nat (w * 512) / of_nat h" "draw_height b = 512"
      using d wh hbig by (simp_all add: resizeImage_dimensions_def)
    show ?thesis
    proof (cases "w > 512")
      case True
      then have "draw_width b' = 512"
        using d' by (simp add: resizeAndCompressImage_dimensions_def maxWidth_def)
      then have "canvas_width b' = 512" using d' by (simp add: toUnsignedLong_def)
      moreover have "canvas_width b < 512"
        using d b scaled_lt [of w h 512] wh toUnsignedLong_lt [of "draw_width b" 512] by simp
      ultimately show ?thesis using False by simp
    next
      case small: False
      then have "draw_height b' = of_nat h"
        using d' by (simp add: resizeAndCompressImage_dimensions_def maxWidth_def)
      then have "canvas_height b' = h" using d' by simp
      moreover have "canvas_height b = 512" using d b by (simp add: toUnsignedLong_def)
      ultimately show ?thesis using False by simp
    qed
  qed
  show ?thesis using d d' draw canvas by simp
qed

theorem resize_pipelines_compared_witness:
  "image_size (browser (600, 1200) offline) (pngFile 7000) = Some (600, 1200)
   \<and> resizeImage (browser (600, 1200) offline) (pngFile 7000) 512 =
       Inr \<lparr>blob_source = pngFile 7000, draw_width = 256, draw_height = 512,
            canvas_width = 256, canvas_height = 512, blob_type = ascii ''image/jpeg'',
            blob_quality = 9 / 10\<rparr>
   \<and> resizeAndCompressImage (browser (600, 1200) offline) (pngFile 7000) =
       Inr \<lparr>blob_source = pngFile 7000, draw_width = 512, draw_height = 1024,
            canvas_width = 512, canvas_height = 1024, blob_type = ascii ''image/jpeg'',
            blob_quality = 8 / 10\<rparr>
   \<and> \<not> ((1200::nat) \<le> 600 \<or> (1200::nat) \<le> 512)"
  using resize_pipelines_compared [of "browser (600, 1200) offline" "pngFile 7000" 600 1200
      "\<lparr>blob_source = pngFile 7000, draw_width = 256, draw_height = 512,
            canvas_width = 256, canvas_height = 512, blob_type = ascii ''image/jpeg'',
            blob_quality = 9 / 10\<rparr>"
      "\<lparr>blob_source = pngFile 7000, draw_width = 512, draw_height = 1024,
            canvas_width = 512, canvas_height = 1024, blob_type = ascii ''image/jpeg'',
            blob_quality = 8 / 10\<rparr>"]
  by (simp add: browser_def resizeImage_def resizeAndCompressImage_def
        resizeImage_dimensions_def resizeAndCompressImage_dimensions_def maxWidth_def
        toUnsignedLong_def floor_rat_numeral)

text \<open>
  Claim C2 as stated fails on a 600 by 1200 image: the widget computes 256 by 512 at
  quality 0.9, the landing page 512 by 1024 at quality 0.8.
\<close>

theorem resize_pipelines_counterexample:
  "resizeImage (browser (600, 1200) offline) (pngFile 7000) 512 =
       Inr \<lparr>blob_source = pngFile 7000, draw_width = 256, draw_height = 512,
            canvas_width = 256, canvas_height = 512, blob_type = ascii ''image/jpeg'',
            blob_quality = 9 / 10\<rparr>
   \<and> resizeAndCompressImage (browser (600, 1200) offline) (pngFile 7000) =
       Inr \<lparr>blob_source = pngFile 7000, draw_width = 512, draw_height = 1024,
            canvas_width = 512, canvas_height = 1024, blob_type = ascii ''image/jpeg'',
            blob_quality = 8 / 10\<rparr>
   \<and> (256::nat) \<noteq> 512 \<and> (9 / 10 :: rat) \<noteq> 8 / 10"
  by (simp add: browser_def resizeImage_def resizeAndCompressImage_def
        resizeImage_dimensions_def resizeAndCompressImage_dimensions_def maxWidth_def
        toUnsignedLong_def floor_rat_numeral)


section \<open>Strings\<close>

text \<open>
  \<open>maximalRuns\<close> cuts a string into non-empty pieces, each made of underscores only or of
  other code units only, with the two kinds alternating: the pieces are the maximal runs.
\<close>

lemma concat_maximalRuns: "concat (maximalRuns s) = s"
  by (induction s rule: maximalRuns.induct) simp_all

lemma maximalRuns_nonempty: "r \<in> set (maximalRuns s) \<Longrightarrow> r \<noteq> []"
proof (induction s rule: maximalRuns.induct)
  case 1
  then show ?case by simp
next
  case (2 c cs)
  from 2(2) have "r = c # takeWhile (\<lambda>d. (d = underscore) = (c = underscore)) cs
       \<or> r \<in> set (maximalRuns (dropWhile (\<lambda>d. (d = underscore) = (c = underscore)) cs))"
    by simp
  then show ?case using 2(1) by blast
qed

lemma maximalRuns_uniform:
  "r \<in> set (maximalRuns s) \<Longrightarrow> x \<in> set r \<Longrightarrow> (x = underscore) = (hd r = underscore)"
proof (induction s rule: maximalRuns.induct)
  case 1
  then show ?case by simp
next
  case (2 c cs)
  let ?P = "\<lambda>d. (d = underscore) = (c = underscore)"
  from 2(2) have "r = c # takeWhile ?P cs \<or> r \<in> set (maximalRuns (dropWhile ?P cs))"
    by simp
  then show ?case
  proof
    assume r: "r = c # takeWhile ?P cs"
    then have "x = c \<or> x \<in> set (takeWhile ?P cs)" using 2(3) by simp
    then have "?P x" using set_takeWhileD [of x ?P cs] by blast
    then show ?thesis using r by simp
  next
    assume "r \<in> set (maximalRuns (dropWhile ?P cs))"
    then show ?thesis using 2(1) 2(3) by blast
  qed
qed

lemma maximalRuns_Nil: "maximalRuns s = [] \<longleftrightarrow> s = []"
  by (cases s) simp_all

lemma maximalRuns_alternate:
  "maximalRuns s = rs \<Longrightarrow> Suc i < length rs \<Longrightarrow>
     (hd (rs ! i) = underscore) \<noteq> (hd (rs ! Suc i) = underscore)"
proof (induction s arbitrary: rs i rule: maximalRuns.induct)
  case 1
  then show ?case by simp
next
  case (2 c cs)
  let ?P = "\<lambda>d. (d = underscore) = (c = underscore)"
  let ?rest = "dropWhile ?P cs"
  have rs: "rs = (c # takeWhile ?P cs) # maximalRuns ?rest"
    using 2(2) by simp
  show ?case
  proof (cases i)
    case 0
    then have "maximalRuns ?rest \<noteq> []" using 2(3) rs by auto
    then have rest_ne: "?rest \<noteq> []" by (simp only: maximalRuns_Nil not_False_eq_True)
    then obtain d ds where dds: "?rest = d # ds" by (cases ?rest) blast+
    have "\<not> ?P (hd ?rest)" using rest_ne by (rule hd_dropWhile)
    then have "\<not> ?P d" by (metis dds list.sel(1))
    moreover have "hd (maximalRuns ?rest ! 0) = d" by (simp only: dds) simp
    ultimately show ?thesis using 0 rs by auto
  next
    case (Suc j)
    then have "Suc j < length (maximalRuns ?rest)" using 2(3) rs by simp
    then show ?thesis using 2(1) [OF refl, of j] rs Suc by simp
  qed
qed

text \<open>The scan of the regular expression does what the words say.\<close>

lemma replaceUnderscoreRuns_takeWhile:
  "replaceUnderscoreRuns cs =
     takeWhile (\<lambda>d. d \<noteq> underscore) cs
       @ replaceUnderscoreRuns (dropWhile (\<lambda>d. d \<noteq> underscore) cs)"
  by (induction cs) simp_all

lemma replaceUnderscoreRuns_spec: "replaceUnderscoreRuns s = underscoreRunsReplaced s"
proof (induction s rule: maximalRuns.induct)
  case 1
  then show ?case by (simp add: underscoreRunsReplaced_def)
next
  case (2 c cs)
  show ?case
  proof (cases "c = underscore")
    case True
    then show ?thesis using 2 by (simp add: underscoreRunsReplaced_def)
  next
    case False
    then show ?thesis
      using 2 replaceUnderscoreRuns_takeWhile [of cs]
      by (simp add: underscoreRunsReplaced_def)
  qed
qed

text \<open>
  \<open>trim\<close> takes white space away at both ends and nothing else: what is left neither
  starts nor ends with white space.
\<close>

lemma trim_suffix:
  "dropWhile isWhiteSpace s =
     trim s @ rev (takeWhile isWhiteSpace (rev (dropWhile isWhiteSpace s)))"
proof -
  let ?u = "rev (dropWhile isWhiteSpace s)"
  have "rev (takeWhile isWhiteSpace ?u @ dropWhile isWhiteSpace ?u) =
          rev (dropWhile isWhiteSpace ?u) @ rev (takeWhile isWhiteSpace ?u)"
    by (rule rev_append)
  moreover have "takeWhile isWhiteSpace ?u @ dropWhile isWhiteSpace ?u = ?u"
    by (rule takeWhile_dropWhile_id)
  moreover have "rev ?u = dropWhile isWhiteSpace s" by (rule rev_rev_ident)
  ultimately show ?thesis unfolding trim_def by (simp only:)
qed

lemma trim_decomposition:
  "\<exists>l r. s = l @ trim s @ r \<and> (\<forall>c \<in> set l. isWhiteSpace c) \<and> (\<forall>c \<in> set r. isWhiteSpace c)"
proof -
  let ?t = "dropWhile isWhiteSpace s"
  let ?r = "rev (takeWhile isWhiteSpace (rev ?t))"
  have "takeWhile isWhiteSpace s @ ?t = s" by (rule takeWhile_dropWhile_id)
  then have "s = takeWhile isWhiteSpace s @ trim s @ ?r"
    using trim_suffix [of s] by (simp only:)
  moreover have "\<forall>c \<in> set (takeWhile isWhiteSpace s). isWhiteSpace c"
    by (auto dest: set_takeWhileD)
  moreover have "\<forall>c \<in> set ?r. isWhiteSpace c"
    by (auto dest: set_takeWhileD)
  ultimately show ?thesis by blast
qed

lemma trim_ends:
  assumes "trim s \<noteq> []"
  shows "\<not> isWhiteSpace (hd (trim s)) \<and> \<not> isWhiteSpace (last (trim s))"
proof -
  let ?t = "dropWhile isWhiteSpace s"
  let ?u = "dropWhile isWhiteSpace (rev ?t)"
  have u: "?u \<noteq> []"
    using assms unfolding trim_def by (simp only: rev_is_Nil_conv not_False_eq_True)
  then have "\<not> isWhiteSpace (hd ?u)" by (rule hd_dropWhile)
  moreover have "last (trim s) = hd ?u" unfolding trim_def using u by (simp only: last_rev)
  ultimately have last: "\<not> isWhiteSpace (last (trim s))" by (simp only: not_False_eq_True)
  have "?t = [] \<Longrightarrow> ?u = []" by (simp only: rev.simps(1) dropWhile.simps(1))
  then have t: "?t \<noteq> []" using u by blast
  then have hd_t: "\<not> isWhiteSpace (hd ?t)" by (rule hd_dropWhile)
  have "hd (trim s @ rev (takeWhile isWhiteSpace (rev ?t))) = hd (trim s)"
    using assms by (rule hd_append2)
  then have "hd ?t = hd (trim s)" using trim_suffix [of s] by (simp only:)
  then show ?thesis using hd_t last by (simp only: not_False_eq_True simp_thms)
qed


section \<open>Analysis of a response\<close>

lemma analyzeImage_result:
  "result (analyzeImage env b st) =
     (case analyzeImage_try env b of Inl err \<Rightarrow> None | Inr r \<Rightarrow> Some r)"
  by (simp add: analyzeImage_def analyzeImage_settle_def analyzeImage_begin_def split: sum.splits)

lemma analyzeImage_error:
  "error (analyzeImage env b st) =
     (case analyzeImage_try env b of Inl err \<Rightarrow> Some (catchMessage err) | Inr r \<Rightarrow> None)"
  by (simp add: analyzeImage_def analyzeImage_settle_def analyzeImage_begin_def split: sum.splits)

lemma analyzeImageWithAPI_result:
  "result (analyzeImageWithAPI env f st) =
     (case snd (analyzeImageWithAPI_try env f) of Inl err \<Rightarrow> None | Inr r \<Rightarrow> Some r)"
  by (simp add: analyzeImageWithAPI_def analyzeImageWithAPI_settle_def
        analyzeImageWithAPI_begin_def split: sum.splits)

lemma analyzeImageWithAPI_error:
  "error (analyzeImageWithAPI env f st) =
     (case snd (analyzeImageWithAPI_try env f) of
        Inl err \<Rightarrow> Some (catchMessage err) | Inr r \<Rightarrow> None)"
  by (simp add: analyzeImageWithAPI_def analyzeImageWithAPI_settle_def
        analyzeImageWithAPI_begin_def split: sum.splits)

lemma analyzeImage_try_not_ok:
  assumes "fetch env (analyzeImage_request b) = Inr resp" "\<not> ok resp"
  shows "analyzeImage_try env b = Inl (analyzeImage_statusError (status resp))"
  using assms by (simp add: analyzeImage_try_def)

lemma analyzeImageWithAPI_try_not_ok:
  assumes "resizeAndCompressImage env f = Inr cb"
    "fetch env (analyzeImageWithAPI_request cb) = Inr resp" "\<not> ok resp"
  shows "snd (analyzeImageWithAPI_try env f) = Inl (analyzeImageWithAPI_statusError (status resp))"
  using assms by (simp add: analyzeImageWithAPI_try_def)

lemma catchMessage_Error [simp]: "catchMessage (ThrownError m) = m"
  by (simp add: catchMessage_def)

text \<open>
  Claim C4, as the code has it, for each component with its own request and response.
  For a response whose \<open>ok\<close> is false, no result is set, and the error is: for status 404
  the service-unavailable message; for status 500 the server-error message; for any other
  status from 400 to 499 the invalid-request message; for every other status a message
  made of a fixed prefix and the status in decimal. 404 and 500 are tested first.
\<close>

theorem status_error_messages:
  "(fetch env (analyzeImage_request b) = Inr resp \<and> \<not> ok resp \<longrightarrow>
      result (analyzeImage env b st) = None
      \<and> (status resp = 404 \<longrightarrow>
           error (analyzeImage env b st) =
             Some (ascii ''The analysis service is temporarily unavailable.''))
      \<and> (status resp = 500 \<longrightarrow>
           error (analyzeImage env b st) =
             Some (ascii ''Server error occurred. Please try again in a few moments.''))
      \<and> (400 \<le> status resp \<and> status resp < 500 \<and> status resp \<noteq> 404 \<longrightarrow>
           error (analyzeImage env b st) =
             Some (ascii ''Invalid request. Please check your image and try again.''))
      \<and> (status resp < 400 \<or> 500 < status resp \<longrightarrow>
           error (analyzeImage env b st) =
             Some (ascii ''Request failed with status '' @ decimal (status resp))))
   \<and> (resizeAndCompressImage env' f = Inr cb
        \<and> fetch env' (analyzeImageWithAPI_request cb) = Inr resp' \<and> \<not> ok resp' \<longrightarrow>
      result (analyzeImageWithAPI env' f gs) = None
      \<and> (status resp' = 404 \<longrightarrow>
           error (analyzeImageWithAPI env' f gs) =
             Some (ascii ''The service may be temporarily unavailable.''))
      \<and> (status resp' = 500 \<longrightarrow>
           error (analyzeImageWithAPI env' f gs) =
             Some (ascii ''Server error occurred. Please try again in a few moments.''))
      \<and> (400 \<le> status resp' \<and> status resp' < 500 \<and> status resp' \<noteq> 404 \<longrightarrow>
           error (analyzeImageWithAPI env' f gs) =
             Some (ascii ''Invalid request. Please check your image format and try again.''))
      \<and> (status resp' < 400 \<or> 500 < status resp' \<longrightarrow>
           error (analyzeImageWithAPI env' f gs) =
             Some (ascii ''API request failed with status '' @ decimal (status resp'))))"
proof (intro conjI impI)
  assume h: "fetch env (analyzeImage_request b) = Inr resp \<and> \<not> ok resp"
  then have t: "analyzeImage_try env b = Inl (analyzeImage_statusError (status resp))"
    by (simp add: analyzeImage_try_not_ok)
  show "result (analyzeImage env b st) = None"
    by (simp add: analyzeImage_result t)
  {
    assume "status resp = 404"
    then show "error (analyzeImage env b st) =
        Some (ascii ''The analysis service is temporarily unavailable.'')"
      by (simp add: analyzeImage_error t analyzeImage_statusError_def)
  }
  {
    assume "status resp = 500"
    then show "error (analyzeImage env b st) =
        Some (ascii ''Server error occurred. Please try again in a few moments.'')"
      by (simp add: analyzeImage_error t analyzeImage_statusError_def)
  }
  {
    assume "400 \<le> status resp \<and> status resp < 500 \<and> status resp \<noteq> 404"
    then show "error (analyzeImage env b st) =
        Some (ascii ''Invalid request. Please check your image and try again.'')"
      by (simp add: analyzeImage_error t analyzeImage_statusError_def)
  }
  {
    assume "status resp < 400 \<or> 500 < status resp"
    then have "analyzeImage_statusError (status resp) =
        ThrownError (ascii ''Request failed with status '' @ decimal (status resp))"
      unfolding analyzeImage_statusError_def by (elim disjE) (simp_all del: decimal.simps)
    then show "error (analyzeImage env b st) =
        Some (ascii ''Request failed with status '' @ decimal (status resp))"
      by (simp add: analyzeImage_error t del: decimal.simps)
  }
next
  assume h: "resizeAndCompressImage env' f = Inr cb
        \<and> fetch env' (analyzeImageWithAPI_request cb) = Inr resp' \<and> \<not> ok resp'"
  then have t: "snd (analyzeImageWithAPI_try env' f)
      = Inl (analyzeImageWithAPI_statusError (status resp'))"
    by (simp add: analyzeImageWithAPI_try_not_ok)
  show "result (analyzeImageWithAPI env' f gs) = None"
    by (simp add: analyzeImageWithAPI_result t)
  {
    assume "status resp' = 404"
    then show "error (analyzeImageWithAPI env' f gs) =
        Some (ascii ''The service may be temporarily unavailable.'')"
      by (simp add: analyzeImageWithAPI_error t analyzeImageWithAPI_statusError_def)
  }
  {
    assume "status resp' = 500"
    then show "error (analyzeImageWithAPI env' f gs) =
        Some (ascii ''Server error occurred. Please try again in a few moments.'')"
      by (simp add: analyzeImageWithAPI_error t analyzeImageWithAPI_statusError_def)
  }
  {
    assume "400 \<le> status resp' \<and> status resp' < 500 \<and> status resp' \<noteq> 404"
    then show "error (analyzeImageWithAPI env' f gs) =
        Some (ascii ''Invalid request. Please check your image format and try again.'')"
      by (simp add: analyzeImageWithAPI_error t analyzeImageWithAPI_statusError_def)
  }
  {
    assume "status resp' < 400 \<or> 500 < status resp'"
    then have "analyzeImageWithAPI_statusError (status resp') =
        ThrownError (ascii ''API request failed with status '' @ decimal (status resp'))"
      unfolding analyzeImageWithAPI_statusError_def
      by (elim disjE) (simp_all del: decimal.simps)
    then show "error (analyzeImageWithAPI env' f gs) =
        Some (ascii ''API request failed with status '' @ decimal (status resp'))"
      by (simp add: analyzeImageWithAPI_error t del: decimal.simps)
  }
qed

lemma resize_smallBlob:
  "resizeImage (browser (10, 10) a) (pngFile 5000) 512 = Inr (smallBlob (9 / 10))"
  "resizeAndCompressImage (browser (10, 10) a) (pngFile 5000) = Inr (smallBlob (8 / 10))"
  by (simp_all add: browser_def resizeImage_def resizeAndCompressImage_def smallBlob_def
        resizeImage_dimensions_def resizeAndCompressImage_dimensions_def maxWidth_def
        toUnsignedLong_def)

lemma browser_fetch [simp]: "fetch (browser dims a) req = a"
  by (simp add: browser_def)

text \<open>
  An environment in which only the widget's endpoint answers, with status 404; the
  landing page's endpoint cannot be reached.
\<close>

theorem status_error_messages_witness:
  "error (analyzeImage (browser (10, 10) (answer False 404 JNull)) (smallBlob (9 / 10)) analyzer_init)
     = Some (ascii ''The analysis service is temporarily unavailable.'')
   \<and> error (analyzeImageWithAPI (browser (10, 10) (answer False 404 JNull)) (pngFile 5000) grove_init)
     = Some (ascii ''The service may be temporarily unavailable.'')
   \<and> error (analyzeImage (browser (10, 10) (answer False 500 JNull)) (smallBlob (9 / 10)) analyzer_init)
     = Some (ascii ''Server error occurred. Please try again in a few moments.'')
   \<and> error (analyzeImageWithAPI (browser (10, 10) (answer False 500 JNull)) (pngFile 5000) grove_init)
     = Some (ascii ''Server error occurred. Please try again in a few moments.'')
   \<and> error (analyzeImage (browser (10, 10) (answer False 422 JNull)) (smallBlob (9 / 10)) analyzer_init)
     = Some (ascii ''Invalid request. Please check your image and try again.'')
   \<and> error (analyzeImageWithAPI (browser (10, 10) (answer False 422 JNull)) (pngFile 5000) grove_init)
     = Some (ascii ''Invalid request. Please check your image format and try again.'')
   \<and> error (analyzeImage (browser (10, 10) (answer False 301 JNull)) (smallBlob (9 / 10)) analyzer_init)
     = Some (ascii ''Request failed with status 301'')
   \<and> error (analyzeImageWithAPI (browser (10, 10) (answer False 301 JNull)) (pngFile 5000) grove_init)
     = Some (ascii ''API request failed with status 301'')
   \<and> result (analyzeImage (browser (10, 10) (answer False 301 JNull)) (smallBlob (9 / 10)) analyzer_init)
     = None
   \<and> error (analyzeImage widgetOnly404 (smallBlob (9 / 10)) analyzer_init)
     = Some (ascii ''The analysis service is temporarily unavailable.'')"
proof -
  have w: "fetch widgetOnly404 (analyzeImage_request (smallBlob (9 / 10)))
      = Inr \<lparr>ok = False, status = 404, json_body = Inr JNull, blob_body = Inr 0\<rparr>"
    by (simp add: widgetOnly404_def analyzeImage_request_def answer_def)
  show ?thesis
    using
      status_error_messages [of "browser (10, 10) (answer False 404 JNull)" "smallBlob (9 / 10)"
        "\<lparr>ok = False, status = 404, json_body = Inr JNull, blob_body = Inr 0\<rparr>" analyzer_init
        "browser (10, 10) (answer False 404 JNull)" "pngFile 5000" "smallBlob (8 / 10)"
        "\<lparr>ok = False, status = 404, json_body = Inr JNull, blob_body = Inr 0\<rparr>" grove_init]
      status_error_messages [of "browser (10, 10) (answer False 500 JNull)" "smallBlob (9 / 10)"
        "\<lparr>ok = False, status = 500, json_body = Inr JNull, blob_body = Inr 0\<rparr>" analyzer_init
        "browser (10, 10) (answer False 500 JNull)" "pngFile 5000" "smallBlob (8 / 10)"
        "\<lparr>ok = False, status = 500, json_body = Inr JNull, blob_body = Inr 0\<rparr>" grove_init]
      status_error_messages [of "browser (10, 10) (answer False 422 JNull)" "smallBlob (9 / 10)"
        "\<lparr>ok = False, status = 422, json_body = Inr JNull, blob_body = Inr 0\<rparr>" analyzer_init
        "browser (10, 10) (answer False 422 JNull)" "pngFile 5000" "smallBlob (8 / 10)"
        "\<lparr>ok = False, status = 422, json_body = Inr JNull, blob_body = Inr 0\<rparr>" grove_init]
      status_error_messages [of "browser (10, 10) (answer False 301 JNull)" "smallBlob (9 / 10)"
        "\<lparr>ok = False, status = 301, json_body = Inr JNull, blob_body = Inr 0\<rparr>" analyzer_init
        "browser (10, 10) (answer False 301 JNull)" "pngFile 5000" "smallBlob (8 / 10)"
        "\<lparr>ok = False, status = 301, json_body = Inr JNull, blob_body = Inr 0\<rparr>" grove_init]
      status_error_messages [of widgetOnly404 "smallBlob (9 / 10)"
        "\<lparr>ok = False, status = 404, json_body = Inr JNull, blob_body = Inr 0\<rparr>" analyzer_init]
      w
    by (simp add: resize_smallBlob answer_def ascii_def)
qed

text \<open>
  Claim C4 as stated fails in its last case: the fourth message is not one fixed string,
  it differs between status 502 and status 503.
\<close>

theorem status_error_counterexample:
  "error (analyzeImage (browser (10, 10) (answer False 502 JNull)) (smallBlob (9 / 10)) analyzer_init)
     = Some (ascii ''Request failed with status 502'')
   \<and> error (analyzeImage (browser (10, 10) (answer False 503 JNull)) (smallBlob (9 / 10)) analyzer_init)
     = Some (ascii ''Request failed with status 503'')
   \<and> ascii ''Request failed with status 502'' \<noteq> ascii ''Request failed with status 503''
   \<and> error (analyzeImageWithAPI (browser (10, 10) (answer False 502 JNull)) (pngFile 5000) grove_init)
     = Some (ascii ''API request failed with status 502'')
   \<and> error (analyzeImageWithAPI (browser (10, 10) (answer False 503 JNull)) (pngFile 5000) grove_init)
     = Some (ascii ''API request failed with status 503'')"
  by (simp add: analyzeImage_error analyzeImageWithAPI_error analyzeImage_try_def
        analyzeImageWithAPI_try_def resize_smallBlob answer_def analyzeImage_statusError_def
        analyzeImageWithAPI_statusError_def ascii_def)


lemma analyzeImage_parse_Inr:
  "analyzeImage_parse env data = Inr r \<longleftrightarrow>
     (\<exists>d c. property data (ascii ''disease'') = Some (JStr d) \<and> d \<noteq> []
        \<and> property data (ascii ''confidence'') = Some (JNum c)
        \<and> r = \<lparr>disease = trim (replaceUnderscoreRuns d),
                confidence = multiply (toDouble c) (Finite 100),
                description = orEmptyString (property data (ascii ''description''))\<rparr>)"
proof (cases "data = JNull")
  case True
  then show ?thesis by (simp add: analyzeImage_parse_def)
next
  case False
  show ?thesis
  proof (cases "property data (ascii ''disease'')")
    case None
    then show ?thesis using False by (simp add: analyzeImage_parse_def analyzeImage_accepts_def)
  next
    case (Some v)
    note dis = this
    show ?thesis
    proof (cases "property data (ascii ''confidence'')")
      case None
      then show ?thesis using False by (simp add: analyzeImage_parse_def analyzeImage_accepts_def)
    next
      case (Some u)
      then show ?thesis using False dis
        by (cases v; cases u) (auto simp: analyzeImage_parse_def analyzeImage_accepts_def)
    qed
  qed
qed

lemma analyzeImageWithAPI_parse_Inr:
  "analyzeImageWithAPI_parse env data = Inr r \<longleftrightarrow>
     (\<exists>d c descr. property data (ascii ''disease'') = Some (JStr d) \<and> d \<noteq> []
        \<and> property data (ascii ''confidence'') = Some (JNum c)
        \<and> property data (ascii ''description'') = Some descr \<and> truthy (Some descr)
        \<and> r = \<lparr>disease = trim (replaceUnderscoreRuns d),
                confidence = multiply (toDouble c) (Finite 100), description = descr\<rparr>)"
proof (cases "data = JNull")
  case True
  then show ?thesis by (simp add: analyzeImageWithAPI_parse_def)
next
  case False
  show ?thesis
  proof (cases "property data (ascii ''disease'')")
    case None
    then show ?thesis using False
      by (simp add: analyzeImageWithAPI_parse_def analyzeImageWithAPI_accepts_def)
  next
    case (Some v)
    note dis = this
    show ?thesis
    proof (cases "property data (ascii ''confidence'')")
      case None
      then show ?thesis using False
        by (simp add: analyzeImageWithAPI_parse_def analyzeImageWithAPI_accepts_def)
    next
      case (Some u)
      note conf = this
      show ?thesis
      proof (cases "property data (ascii ''description'')")
        case None
        then show ?thesis using False
          by (simp add: analyzeImageWithAPI_parse_def analyzeImageWithAPI_accepts_def)
      next
        case (Some w)
        then show ?thesis using False dis conf
          by (cases v; cases u)
            (auto simp: analyzeImageWithAPI_parse_def analyzeImageWithAPI_accepts_def)
      qed
    qed
  qed
qed

lemma analyzeImage_parse_rejected:
  assumes "data \<noteq> JNull" "\<not> analyzeImage_accepts data"
  shows "analyzeImage_parse env data = Inl (ThrownError invalidFormatMessage)"
  using assms by (simp add: analyzeImage_parse_def)

lemma analyzeImageWithAPI_parse_rejected:
  assumes "data \<noteq> JNull" "\<not> analyzeImageWithAPI_accepts data"
  shows "analyzeImageWithAPI_parse env data = Inl (ThrownError invalidFormatMessage)"
  using assms by (simp add: analyzeImageWithAPI_parse_def)

lemma analyzeImage_try_ok:
  assumes "fetch env (analyzeImage_request b) = Inr resp" "ok resp" "json_body resp = Inr data"
  shows "analyzeImage_try env b = analyzeImage_parse env data"
  using assms by (simp add: analyzeImage_try_def)

lemma analyzeImageWithAPI_try_ok:
  assumes "resizeAndCompressImage env f = Inr cb"
    "fetch env (analyzeImageWithAPI_request cb) = Inr resp" "ok resp" "json_body resp = Inr data"
  shows "snd (analyzeImageWithAPI_try env f) = analyzeImageWithAPI_parse env data"
  using assms by (simp add: analyzeImageWithAPI_try_def)

lemma sum_case_eq_Some:
  "(case x of Inl err \<Rightarrow> None | Inr r \<Rightarrow> Some r) = Some r' \<longleftrightarrow> x = Inr r'"
  by (cases x) auto

lemma sum_case_ne_None:
  "(case x of Inl err \<Rightarrow> None | Inr r \<Rightarrow> Some r) \<noteq> None \<longleftrightarrow> (\<exists>r. x = Inr r)"
  by (cases x) auto

text \<open>The two sample scores: 0.93 times 100 is 93, 0.57 times 100 is 56.99999999999999.\<close>

lemma score_93: "multiply (toDouble (93 / 100)) (Finite 100) = Finite 93"
  by code_simp

lemma score_57:
  "multiply (toDouble (57 / 100)) (Finite 100) = Finite (8022036836253695 / 140737488355328)"
  by code_simp

text \<open>
  Claim C5, as the code has it, for each component with its own request and response.
  For an HTTP-OK response whose body parses to a value other than \<open>null\<close>: a body whose
  \<open>disease\<close> is a non-empty string and whose \<open>confidence\<close> is a number is accepted by the
  widget (a result and no error); the landing page accepts it when, moreover,
  \<open>description\<close> is truthy. The check tests \<open>disease\<close> for truthiness: where \<open>disease\<close> is
  falsy or \<open>confidence\<close> is no number (in the landing page also: where \<open>description\<close> is
  falsy), the error is ``Invalid response format from API'' and no result is set.
\<close>

theorem response_acceptance:
  "(fetch env (analyzeImage_request b) = Inr resp \<and> ok resp \<and> json_body resp = Inr data
      \<and> data \<noteq> JNull \<longrightarrow>
      (\<not> (truthy (property data (ascii ''disease''))
            \<and> isNumber (property data (ascii ''confidence''))) \<longrightarrow>
          result (analyzeImage env b st) = None
          \<and> error (analyzeImage env b st) = Some (ascii ''Invalid response format from API''))
      \<and> (property data (ascii ''disease'') = Some (JStr d) \<and> d \<noteq> []
            \<and> property data (ascii ''confidence'') = Some (JNum c) \<longrightarrow>
          result (analyzeImage env b st) \<noteq> None \<and> error (analyzeImage env b st) = None))
   \<and> (resizeAndCompressImage env' f = Inr cb
        \<and> fetch env' (analyzeImageWithAPI_request cb) = Inr resp' \<and> ok resp'
        \<and> json_body resp' = Inr data' \<and> data' \<noteq> JNull \<longrightarrow>
      (\<not> (truthy (property data' (ascii ''disease''))
            \<and> isNumber (property data' (ascii ''confidence''))
            \<and> truthy (property data' (ascii ''description''))) \<longrightarrow>
          result (analyzeImageWithAPI env' f gs) = None
          \<and> error (analyzeImageWithAPI env' f gs)
              = Some (ascii ''Invalid response format from API''))
      \<and> (property data' (ascii ''disease'') = Some (JStr d') \<and> d' \<noteq> []
            \<and> property data' (ascii ''confidence'') = Some (JNum c')
            \<and> truthy (property data' (ascii ''description'')) \<longrightarrow>
          result (analyzeImageWithAPI env' f gs) \<noteq> None
          \<and> error (analyzeImageWithAPI env' f gs) = None))"
proof (intro conjI impI)
  assume h: "fetch env (analyzeImage_request b) = Inr resp \<and> ok resp
      \<and> json_body resp = Inr data \<and> data \<noteq> JNull"
  then have w: "analyzeImage_try env b = analyzeImage_parse env data"
    by (simp add: analyzeImage_try_ok)
  {
    assume "\<not> (truthy (property data (ascii ''disease''))
            \<and> isNumber (property data (ascii ''confidence'')))"
    then have "analyzeImage_parse env data = Inl (ThrownError invalidFormatMessage)"
      using h by (simp add: analyzeImage_parse_rejected analyzeImage_accepts_def)
    then show "result (analyzeImage env b st) = None"
      "error (analyzeImage env b st) = Some (ascii ''Invalid response format from API'')"
      by (simp_all add: analyzeImage_result analyzeImage_error w invalidFormatMessage_def)
  }
  {
    assume a: "property data (ascii ''disease'') = Some (JStr d) \<and> d \<noteq> []
            \<and> property data (ascii ''confidence'') = Some (JNum c)"
    have "analyzeImage_parse env data =
        Inr \<lparr>disease = trim (replaceUnderscoreRuns d),
             confidence = multiply (toDouble c) (Finite 100),
             description = orEmptyString (property data (ascii ''description''))\<rparr>"
      unfolding analyzeImage_parse_Inr using a by simp
    then show "result (analyzeImage env b st) \<noteq> None" "error (analyzeImage env b st) = None"
      by (simp_all add: analyzeImage_result analyzeImage_error w)
  }
next
  assume h: "resizeAndCompressImage env' f = Inr cb
        \<and> fetch env' (analyzeImageWithAPI_request cb) = Inr resp' \<and> ok resp'
        \<and> json_body resp' = Inr data' \<and> data' \<noteq> JNull"
  then have g: "snd (analyzeImageWithAPI_try env' f) = analyzeImageWithAPI_parse env' data'"
    by (simp add: analyzeImageWithAPI_try_ok)
  {
    assume "\<not> (truthy (property data' (ascii ''disease''))
            \<and> isNumber (property data' (ascii ''confidence''))
            \<and> truthy (property data' (ascii ''description'')))"
    then have "analyzeImageWithAPI_parse env' data' = Inl (ThrownError invalidFormatMessage)"
      using h by (simp add: analyzeImageWithAPI_parse_rejected analyzeImageWithAPI_accepts_def)
    then show "result (analyzeImageWithAPI env' f gs) = None"
      "error (analyzeImageWithAPI env' f gs) = Some (ascii ''Invalid response format from API'')"
      by (simp_all add: analyzeImageWithAPI_result analyzeImageWithAPI_error g
            invalidFormatMessage_def)
  }
  {
    assume a: "property data' (ascii ''disease'') = Some (JStr d') \<and> d' \<noteq> []
            \<and> property data' (ascii ''confidence'') = Some (JNum c')
            \<and> truthy (property data' (ascii ''description''))"
    then obtain descr where descr: "property data' (ascii ''description'') = Some descr"
      by (cases "property data' (ascii ''description'')") auto
    have "analyzeImageWithAPI_parse env' data' =
        Inr \<lparr>disease = trim (replaceUnderscoreRuns d'),
             confidence = multiply (toDouble c') (Finite 100), description = descr\<rparr>"
      unfolding analyzeImageWithAPI_parse_Inr using a descr by simp
    then show "result (analyzeImageWithAPI env' f gs) \<noteq> None"
      "error (analyzeImageWithAPI env' f gs) = None"
      by (simp_all add: analyzeImageWithAPI_result analyzeImageWithAPI_error g)
  }
qed

theorem response_acceptance_witness:
  "result (analyzeImage (browser (10, 10) (answer True 200 describedDiagnosis)) (smallBlob (9 / 10))
       analyzer_init) \<noteq> None
   \<and> result (analyzeImageWithAPI (browser (10, 10) (answer True 200 describedDiagnosis))
       (pngFile 5000) grove_init) \<noteq> None
   \<and> error (analyzeImage (browser (10, 10) (answer True 200 unnamedDiagnosis)) (smallBlob (9 / 10))
       analyzer_init) = Some (ascii ''Invalid response format from API'')
   \<and> error (analyzeImageWithAPI (browser (10, 10) (answer True 200 unnamedDiagnosis))
       (pngFile 5000) grove_init) = Some (ascii ''Invalid response format from API'')"
  using
    response_acceptance [of "browser (10, 10) (answer True 200 describedDiagnosis)"
      "smallBlob (9 / 10)"
      "\<lparr>ok = True, status = 200, json_body = Inr describedDiagnosis, blob_body = Inr 0\<rparr>"
      describedDiagnosis analyzer_init "ascii ''__Tomato___Early_blight_''" "93 / 100"
      "browser (10, 10) (answer True 200 describedDiagnosis)" "pngFile 5000" "smallBlob (8 / 10)"
      "\<lparr>ok = True, status = 200, json_body = Inr describedDiagnosis, blob_body = Inr 0\<rparr>"
      describedDiagnosis grove_init "ascii ''__Tomato___Early_blight_''" "93 / 100"]
    response_acceptance [of "browser (10, 10) (answer True 200 unnamedDiagnosis)"
      "smallBlob (9 / 10)"
      "\<lparr>ok = True, status = 200, json_body = Inr unnamedDiagnosis, blob_body = Inr 0\<rparr>"
      unnamedDiagnosis analyzer_init _ _
      "browser (10, 10) (answer True 200 unnamedDiagnosis)" "pngFile 5000" "smallBlob (8 / 10)"
      "\<lparr>ok = True, status = 200, json_body = Inr unnamedDiagnosis, blob_body = Inr 0\<rparr>"
      unnamedDiagnosis grove_init]
  by (simp add: resize_smallBlob answer_def describedDiagnosis_def unnamedDiagnosis_def ascii_def)

text \<open>
  Claim C5 as stated fails: a body with a string \<open>disease\<close> and a number \<open>confidence\<close> but
  no \<open>description\<close> is accepted by the widget and rejected by the landing page, and a body
  whose \<open>disease\<close> is the empty string is rejected by the widget.
\<close>

theorem response_acceptance_counterexample:
  "result (analyzeImage (browser (10, 10) (answer True 200 diagnosis)) (smallBlob (9 / 10))
       analyzer_init)
     = Some \<lparr>disease = ascii ''Tomato Early blight'', confidence = Finite 93,
             description = JStr []\<rparr>
   \<and> result (analyzeImageWithAPI (browser (10, 10) (answer True 200 diagnosis)) (pngFile 5000)
       grove_init) = None
   \<and> error (analyzeImageWithAPI (browser (10, 10) (answer True 200 diagnosis)) (pngFile 5000)
       grove_init) = Some (ascii ''Invalid response format from API'')
   \<and> result (analyzeImage (browser (10, 10) (answer True 200 unnamedDiagnosis))
       (smallBlob (9 / 10)) analyzer_init) = None
   \<and> error (analyzeImage (browser (10, 10) (answer True 200 unnamedDiagnosis))
       (smallBlob (9 / 10)) analyzer_init) = Some (ascii ''Invalid response format from API'')"
  by (simp add: analyzeImage_result analyzeImage_error analyzeImageWithAPI_result
        analyzeImageWithAPI_error analyzeImage_try_def analyzeImageWithAPI_try_def
        resize_smallBlob answer_def diagnosis_def unnamedDiagnosis_def
        analyzeImage_parse_def analyzeImageWithAPI_parse_def analyzeImage_accepts_def
        analyzeImageWithAPI_accepts_def invalidFormatMessage_def score_93
        ascii_def trim_def underscore_def space_def isWhiteSpace_def)

text \<open>
  Claim C6, for each component with its own request and response. When the response is
  accepted, the label of the result is the \<open>disease\<close> string with every maximal run of
  underscores replaced by one space, then trimmed, and the score is the product of
  \<open>confidence\<close> and 100 as JavaScript computes it: the double nearest to the product of
  the parsed double and 100. A result is set only in that way. The label is stated with
  \<open>underscoreRunsReplaced\<close>, the words of the claim, which \<open>replaceUnderscoreRuns_spec\<close>
  shows to be what the code computes; \<open>trim_decomposition\<close> and \<open>trim_ends\<close> say what
  trimming does.
\<close>

theorem accepted_result_transformed:
  "(fetch env (analyzeImage_request b) = Inr resp \<and> ok resp \<and> json_body resp = Inr data
      \<longrightarrow>
      (property data (ascii ''disease'') = Some (JStr d) \<and> d \<noteq> []
           \<and> property data (ascii ''confidence'') = Some (JNum c) \<longrightarrow>
          map_option disease (result (analyzeImage env b st))
            = Some (trim (underscoreRunsReplaced d))
          \<and> map_option confidence (result (analyzeImage env b st))
            = Some (multiply (toDouble c) (Finite 100))
          \<and> error (analyzeImage env b st) = None)
      \<and> (result (analyzeImage env b st) = Some r \<longrightarrow>
          (\<exists>d0 c0. property data (ascii ''disease'') = Some (JStr d0)
             \<and> property data (ascii ''confidence'') = Some (JNum c0)
             \<and> disease r = trim (underscoreRunsReplaced d0)
             \<and> confidence r = multiply (toDouble c0) (Finite 100))))
   \<and> (resizeAndCompressImage env' f = Inr cb
        \<and> fetch env' (analyzeImageWithAPI_request cb) = Inr resp' \<and> ok resp'
        \<and> json_body resp' = Inr data' \<longrightarrow>
      (property data' (ascii ''disease'') = Some (JStr d') \<and> d' \<noteq> []
           \<and> property data' (ascii ''confidence'') = Some (JNum c')
           \<and> truthy (property data' (ascii ''description'')) \<longrightarrow>
          map_option disease (result (analyzeImageWithAPI env' f gs))
            = Some (trim (underscoreRunsReplaced d'))
          \<and> map_option confidence (result (analyzeImageWithAPI env' f gs))
            = Some (multiply (toDouble c') (Finite 100))
          \<and> error (analyzeImageWithAPI env' f gs) = None)
      \<and> (result (analyzeImageWithAPI env' f gs) = Some r' \<longrightarrow>
          (\<exists>d0 c0. property data' (ascii ''disease'') = Some (JStr d0)
             \<and> property data' (ascii ''confidence'') = Some (JNum c0)
             \<and> disease r' = trim (underscoreRunsReplaced d0)
             \<and> confidence r' = multiply (toDouble c0) (Finite 100))))"
proof (intro conjI impI)
  assume h: "fetch env (analyzeImage_request b) = Inr resp \<and> ok resp
      \<and> json_body resp = Inr data"
  then have w: "analyzeImage_try env b = analyzeImage_parse env data"
    by (simp add: analyzeImage_try_ok)
  {
    assume a: "property data (ascii ''disease'') = Some (JStr d) \<and> d \<noteq> []
           \<and> property data (ascii ''confidence'') = Some (JNum c)"
    have "analyzeImage_parse env data =
        Inr \<lparr>disease = trim (replaceUnderscoreRuns d),
             confidence = multiply (toDouble c) (Finite 100),
             description = orEmptyString (property data (ascii ''description''))\<rparr>"
      unfolding analyzeImage_parse_Inr using a by simp
    then show "map_option disease (result (analyzeImage env b st))
            = Some (trim (underscoreRunsReplaced d))"
      "map_option confidence (result (analyzeImage env b st))
            = Some (multiply (toDouble c) (Finite 100))"
      "error (analyzeImage env b st) = None"
      by (simp_all add: analyzeImage_result analyzeImage_error w replaceUnderscoreRuns_spec)
  }
  {
    assume "result (analyzeImage env b st) = Some r"
    then have "analyzeImage_parse env data = Inr r"
      by (simp add: analyzeImage_result w sum_case_eq_Some)
    then show "\<exists>d0 c0. property data (ascii ''disease'') = Some (JStr d0)
             \<and> property data (ascii ''confidence'') = Some (JNum c0)
             \<and> disease r = trim (underscoreRunsReplaced d0)
             \<and> confidence r = multiply (toDouble c0) (Finite 100)"
      unfolding analyzeImage_parse_Inr by (auto simp: replaceUnderscoreRuns_spec)
  }
next
  assume h: "resizeAndCompressImage env' f = Inr cb
        \<and> fetch env' (analyzeImageWithAPI_request cb) = Inr resp' \<and> ok resp'
        \<and> json_body resp' = Inr data'"
  then have g: "snd (analyzeImageWithAPI_try env' f) = analyzeImageWithAPI_parse env' data'"
    by (simp add: analyzeImageWithAPI_try_ok)
  {
    assume a: "property data' (ascii ''disease'') = Some (JStr d') \<and> d' \<noteq> []
           \<and> property data' (ascii ''confidence'') = Some (JNum c')
           \<and> truthy (property data' (ascii ''description''))"
    then obtain descr where descr: "property data' (ascii ''description'') = Some descr"
      by (cases "property data' (ascii ''description'')") auto
    have "analyzeImageWithAPI_parse env' data' =
        Inr \<lparr>disease = trim (replaceUnderscoreRuns d'),
             confidence = multiply (toDouble c') (Finite 100), description = descr\<rparr>"
      unfolding analyzeImageWithAPI_parse_Inr using a descr by simp
    then show "map_option disease (result (analyzeImageWithAPI env' f gs))
            = Some (trim (underscoreRunsReplaced d'))"
      "map_option confidence (result (analyzeImageWithAPI env' f gs))
            = Some (multiply (toDouble c') (Finite 100))"
      "error (analyzeImageWithAPI env' f gs) = None"
      by (simp_all add: analyzeImageWithAPI_result analyzeImageWithAPI_error g
            replaceUnderscoreRuns_spec)
  }
  {
    assume "result (analyzeImageWithAPI env' f gs) = Some r'"
    then have "analyzeImageWithAPI_parse env' data' = Inr r'"
      by (simp add: analyzeImageWithAPI_result g sum_case_eq_Some)
    then show "\<exists>d0 c0. property data' (ascii ''disease'') = Some (JStr d0)
             \<and> property data' (ascii ''confidence'') = Some (JNum c0)
             \<and> disease r' = trim (underscoreRunsReplaced d0)
             \<and> confidence r' = multiply (toDouble c0) (Finite 100)"
      unfolding analyzeImageWithAPI_parse_Inr by (auto simp: replaceUnderscoreRuns_spec)
  }
qed

theorem accepted_result_transformed_witness:
  "map_option disease (result (analyzeImage (browser (10, 10) (answer True 200 describedDiagnosis))
       (smallBlob (9 / 10)) analyzer_init)) = Some (ascii ''Tomato Early blight'')
   \<and> map_option confidence (result (analyzeImage (browser (10, 10) (answer True 200 describedDiagnosis))
       (smallBlob (9 / 10)) analyzer_init)) = Some (Finite 93)
   \<and> map_option disease (result (analyzeImageWithAPI (browser (10, 10) (answer True 200 describedDiagnosis))
       (pngFile 5000) grove_init)) = Some (ascii ''Tomato Early blight'')
   \<and> map_option confidence (result (analyzeImageWithAPI (browser (10, 10) (answer True 200 describedDiagnosis))
       (pngFile 5000) grove_init)) = Some (Finite 93)
   \<and> map_option disease (result (analyzeImage (browser (10, 10) (answer True 200 uncertainDiagnosis))
       (smallBlob (9 / 10)) analyzer_init)) = Some (ascii ''Apple Apple scab'')
   \<and> map_option confidence (result (analyzeImage (browser (10, 10) (answer True 200 uncertainDiagnosis))
       (smallBlob (9 / 10)) analyzer_init))
       = Some (Finite (8022036836253695 / 140737488355328))
   \<and> map_option confidence (result (analyzeImageWithAPI (browser (10, 10) (answer True 200 uncertainDiagnosis))
       (pngFile 5000) grove_init))
       = Some (Finite (8022036836253695 / 140737488355328))
   \<and> (8022036836253695 / 140737488355328 :: rat) < 57"
  using
    accepted_result_transformed [of "browser (10, 10) (answer True 200 describedDiagnosis)"
      "smallBlob (9 / 10)"
      "\<lparr>ok = True, status = 200, json_body = Inr describedDiagnosis, blob_body = Inr 0\<rparr>"
      describedDiagnosis "ascii ''__Tomato___Early_blight_''" "93 / 100" analyzer_init _
      "browser (10, 10) (answer True 200 describedDiagnosis)" "pngFile 5000" "smallBlob (8 / 10)"
      "\<lparr>ok = True, status = 200, json_body = Inr describedDiagnosis, blob_body = Inr 0\<rparr>"
      describedDiagnosis "ascii ''__Tomato___Early_blight_''" "93 / 100" grove_init]
    accepted_result_transformed [of "browser (10, 10) (answer True 200 uncertainDiagnosis)"
      "smallBlob (9 / 10)"
      "\<lparr>ok = True, status = 200, json_body = Inr uncertainDiagnosis, blob_body = Inr 0\<rparr>"
      uncertainDiagnosis "ascii ''Apple___Apple_scab''" "57 / 100" analyzer_init _
      "browser (10, 10) (answer True 200 uncertainDiagnosis)" "pngFile 5000" "smallBlob (8 / 10)"
      "\<lparr>ok = True, status = 200, json_body = Inr uncertainDiagnosis, blob_body = Inr 0\<rparr>"
      uncertainDiagnosis "ascii ''Apple___Apple_scab''" "57 / 100" grove_init]
  by (simp add: resize_smallBlob answer_def describedDiagnosis_def uncertainDiagnosis_def
        ascii_def score_93 score_57 underscoreRunsReplaced_def trim_def underscore_def
        space_def isWhiteSpace_def)


section \<open>Uploads and drops\<close>

lemma validateFile_valid:
  assumes "file_type f \<in> set validTypes" "file_size f \<le> maxSize"
  shows "validateFile f st = (True, st)"
  using assms by (simp add: validateFile_def)

lemma validateImage_valid:
  assumes "file_type f \<in> set validTypes" "file_size f \<le> maxSize"
  shows "validateImage f st = (True, st)"
  using assms by (simp add: validateImage_def)

lemma processFile_valid:
  assumes "file_type f \<in> set validTypes" "file_size f \<le> maxSize"
  shows "processFile env f st =
    (case resizeImage env f 512 of
       Inl err \<Rightarrow> st\<lparr>error := Some (processingErrorMessage err), selectedFile := Some f,
                     previewUrl := Some (UrlOfFile f)\<rparr>
     | Inr b \<Rightarrow> analyzeImage env b
                 (st\<lparr>selectedFile := Some f, previewUrl := Some (UrlOfFile f),
                     resizedImageUrl := Some (UrlOfBlob b)\<rparr>))"
  using assms
  by (simp add: processFile_def processFile_begin_def validateFile_valid processFile_resized_def
        analyzeImage_def analyzeImage_begin_def analyzeImage_settle_def split: sum.splits)

lemma handleDragDrop_valid:
  assumes "file_type f \<in> set validTypes" "file_size f \<le> maxSize"
  shows "handleDragDrop env f st =
    (case read_as_data_url env f of
       None \<Rightarrow> st\<lparr>error := None\<rparr>
     | Some u \<Rightarrow> analyzeImageWithAPI env f (st\<lparr>error := None, uploadedImage := Some u\<rparr>))"
  using assms
  by (simp add: handleDragDrop_def handleDragDrop_begin_def validateImage_valid split: option.splits)

lemma handleImageUpload_eq: "handleImageUpload env (f # rest) st = handleDragDrop env f st"
  by (simp add: handleImageUpload_def handleDragDrop_def handleDragDrop_begin_def)

lemma analyzeImage_requests:
  "requests (analyzeImage env b st) = requests st @ [analyzeImage_request b]"
  by (simp add: analyzeImage_def analyzeImage_settle_def analyzeImage_begin_def split: sum.splits)

lemma analyzeImageWithAPI_requests:
  "requests (analyzeImageWithAPI env f st) = requests st @ fst (analyzeImageWithAPI_try env f)"
  by (simp add: analyzeImageWithAPI_def analyzeImageWithAPI_settle_def
        analyzeImageWithAPI_begin_def split: sum.splits)

lemma resizeImage_jpeg:
  assumes "resizeImage env f m = Inr b"
  shows "blob_type b = ascii ''image/jpeg'' \<and> blob_source b = f"
  using assms
  by (auto simp: resizeImage_def Let_def split: if_splits option.splits prod.splits)

lemma resizeAndCompressImage_jpeg:
  assumes "resizeAndCompressImage env f = Inr b"
  shows "blob_type b = ascii ''image/jpeg'' \<and> blob_source b = f"
  using assms
  by (auto simp: resizeAndCompressImage_def Let_def split: if_splits option.splits prod.splits)

text \<open>
  Claim C7, as the code has it. For a file that passes validation, each component hands
  exactly one request to \<open>fetch\<close> once the resize has delivered a blob: a POST whose form
  data has the single entry \<open>file\<close>, holding that blob (a JPEG made from the file) under
  the file name \<open>image.jpg\<close>. The widget posts to
  \<open>https://grove-ai-5.onrender.com/predict\<close>, the landing page to
  \<open>https://grove-ai-6.onrender.com/predict\<close>. When the resize fails, nothing is sent.
\<close>

theorem upload_request:
  assumes "file_type f \<in> set validTypes" and "file_size f \<le> maxSize"
  shows "(resizeImage env f 512 = Inr b \<longrightarrow>
            requests (processFile env f st) = requests st @
              [\<lparr>url = ascii ''https://grove-ai-5.onrender.com/predict'',
                http_method = ascii ''POST'',
                request_body = Some [\<lparr>field_name = ascii ''file'', field_blob = b,
                                      field_filename = ascii ''image.jpg''\<rparr>]\<rparr>]
            \<and> blob_type b = ascii ''image/jpeg'' \<and> blob_source b = f)
    \<and> (resizeAndCompressImage env f = Inr cb \<and> read_as_data_url env f = Some u \<longrightarrow>
            requests (handleDragDrop env f gs) = requests gs @
              [\<lparr>url = ascii ''https://grove-ai-6.onrender.com/predict'',
                http_method = ascii ''POST'',
                request_body = Some [\<lparr>field_name = ascii ''file'', field_blob = cb,
                                      field_filename = ascii ''image.jpg''\<rparr>]\<rparr>]
            \<and> requests (handleImageUpload env (f # rest) gs) = requests (handleDragDrop env f gs)
            \<and> blob_type cb = ascii ''image/jpeg'' \<and> blob_source cb = f)
    \<and> (resizeImage env f 512 = Inl err \<longrightarrow> requests (processFile env f st) = requests st)
    \<and> (resizeAndCompressImage env f = Inl err' \<longrightarrow>
            requests (handleDragDrop env f gs) = requests gs)"
proof (intro conjI impI)
  assume r: "resizeImage env f 512 = Inr b"
  then show "requests (processFile env f st) = requests st @
              [\<lparr>url = ascii ''https://grove-ai-5.onrender.com/predict'',
                http_method = ascii ''POST'',
                request_body = Some [\<lparr>field_name = ascii ''file'', field_blob = b,
                                      field_filename = ascii ''image.jpg''\<rparr>]\<rparr>]"
    by (simp add: processFile_valid [OF assms] analyzeImage_requests analyzeImage_request_def)
  show "blob_type b = ascii ''image/jpeg''" "blob_source b = f"
    using resizeImage_jpeg [OF r] by simp_all
next
  assume r: "resizeAndCompressImage env f = Inr cb \<and> read_as_data_url env f = Some u"
  then show "requests (handleDragDrop env f gs) = requests gs @
              [\<lparr>url = ascii ''https://grove-ai-6.onrender.com/predict'',
                http_method = ascii ''POST'',
                request_body = Some [\<lparr>field_name = ascii ''file'', field_blob = cb,
                                      field_filename = ascii ''image.jpg''\<rparr>]\<rparr>]"
    by (simp add: handleDragDrop_valid [OF assms] analyzeImageWithAPI_requests
          analyzeImageWithAPI_try_def analyzeImageWithAPI_request_def)
  show "requests (handleImageUpload env (f # rest) gs) = requests (handleDragDrop env f gs)"
    by (simp add: handleImageUpload_eq)
  show "blob_type cb = ascii ''image/jpeg''" "blob_source cb = f"
    using resizeAndCompressImage_jpeg [of env f cb] r by simp_all
next
  assume "resizeImage env f 512 = Inl err"
  then show "requests (processFile env f st) = requests st"
    by (simp add: processFile_valid [OF assms])
next
  assume "resizeAndCompressImage env f = Inl err'"
  then show "requests (handleDragDrop env f gs) = requests gs"
    by (simp add: handleDragDrop_valid [OF assms] analyzeImageWithAPI_requests
          analyzeImageWithAPI_try_def split: option.splits)
qed

lemma browser_read [simp]:
  "read_as_data_url (browser dims a) f = Some (ascii ''data:image/png;base64,'')"
  by (simp add: browser_def)

theorem upload_request_witness:
  "requests (processFile (browser (10, 10) offline) (pngFile 5000) analyzer_init) =
     [\<lparr>url = ascii ''https://grove-ai-5.onrender.com/predict'', http_method = ascii ''POST'',
       request_body = Some [\<lparr>field_name = ascii ''file'', field_blob = smallBlob (9 / 10),
                             field_filename = ascii ''image.jpg''\<rparr>]\<rparr>]
   \<and> requests (handleImageUpload (browser (10, 10) offline) [pngFile 5000] grove_init) =
     [\<lparr>url = ascii ''https://grove-ai-6.onrender.com/predict'', http_method = ascii ''POST'',
       request_body = Some [\<lparr>field_name = ascii ''file'', field_blob = smallBlob (8 / 10),
                             field_filename = ascii ''image.jpg''\<rparr>]\<rparr>]
   \<and> requests (processFile noCanvas (pngFile 5000) analyzer_init) = []
   \<and> requests (handleDragDrop noCanvas (pngFile 5000) grove_init) = []"
proof -
  have v: "file_type (pngFile 5000) \<in> set validTypes" "file_size (pngFile 5000) \<le> maxSize"
    by (simp_all add: pngFile_def validTypes_def maxSize_def)
  have n: "resizeImage noCanvas (pngFile 5000) 512
        = Inl (ThrownError (ascii ''Could not get canvas context''))"
    "resizeAndCompressImage noCanvas (pngFile 5000)
        = Inl (ThrownError (ascii ''Could not get canvas context''))"
    by (simp_all add: noCanvas_def resizeImage_def resizeAndCompressImage_def)
  show ?thesis
    using upload_request [OF v, of "browser (10, 10) offline" "smallBlob (9 / 10)"
        analyzer_init "smallBlob (8 / 10)" "ascii ''data:image/png;base64,''" grove_init "[]"]
      upload_request [OF v, of noCanvas _ analyzer_init _ _ grove_init _
        "ThrownError (ascii ''Could not get canvas context'')"
        "ThrownError (ascii ''Could not get canvas context'')"]
    by (simp add: resize_smallBlob n analyzer_init_def grove_init_def)
qed

text \<open>
  Claim C7 as stated fails in its last part: for the same upload the two components
  address different hosts.
\<close>

theorem upload_request_counterexample:
  "map url (requests (processFile (browser (10, 10) offline) (pngFile 5000) analyzer_init)) =
     [ascii ''https://grove-ai-5.onrender.com/predict'']
   \<and> map url (requests (handleDragDrop (browser (10, 10) offline) (pngFile 5000) grove_init)) =
     [ascii ''https://grove-ai-6.onrender.com/predict'']
   \<and> ascii ''https://grove-ai-5.onrender.com/predict''
       \<noteq> ascii ''https://grove-ai-6.onrender.com/predict''"
proof -
  have v: "file_type (pngFile 5000) \<in> set validTypes" "file_size (pngFile 5000) \<le> maxSize"
    by (simp_all add: pngFile_def validTypes_def maxSize_def)
  show ?thesis
    by (simp add: processFile_valid [OF v] handleDragDrop_valid [OF v] resize_smallBlob
          analyzeImage_requests analyzeImageWithAPI_requests analyzeImageWithAPI_try_def
          analyzeImage_request_def analyzeImageWithAPI_request_def analyzer_init_def
          grove_init_def ascii_def)
qed

text \<open>
  Claim C8. A run of the analyze operation is its part before the first \<open>await\<close>
  followed, once the promises have settled, by the part from the outcome of the \<open>try\<close>
  block to the end of \<open>finally\<close>. The first part leaves \<open>isAnalyzing\<close> true: that is the
  state while the request is pending, also where \<open>processFile\<close> starts the analysis.
  The second part leaves it false, whatever the outcome (a result, a status error, a
  network failure, a parsing failure, a failed resize) and whatever state it settles in;
  so does the whole run.
\<close>

theorem analyzing_flag_reset:
  "analyzeImage env b st = analyzeImage_settle (analyzeImage_try env b) (analyzeImage_begin b st)
   \<and> isAnalyzing (analyzeImage_begin b st)
   \<and> isAnalyzing (snd (processFile_resized (Inr b) st))
   \<and> \<not> isAnalyzing (analyzeImage_settle outcome st')
   \<and> \<not> isAnalyzing (analyzeImage env b st)
   \<and> analyzeImageWithAPI env f gs =
       analyzeImageWithAPI_settle (analyzeImageWithAPI_try env f) (analyzeImageWithAPI_begin gs)
   \<and> isAnalyzing (analyzeImageWithAPI_begin gs)
   \<and> \<not> isAnalyzing (analyzeImageWithAPI_settle tried gs')
   \<and> \<not> isAnalyzing (analyzeImageWithAPI env f gs)"
  by (simp add: analyzeImage_def analyzeImage_begin_def analyzeImage_settle_def
        processFile_resized_def analyzeImageWithAPI_def analyzeImageWithAPI_begin_def
        analyzeImageWithAPI_settle_def split: sum.splits)

text \<open>
  Claim C10. Both drop handlers look at the first file of the drop only. If its type
  starts with \<open>image/\<close> it is processed; otherwise nothing is processed and no error is
  set: the landing page keeps its state, the widget only clears \<open>isDragActive\<close>.
\<close>

theorem drop_first_image_only:
  "handleDrop env (f # rest) st = handleDrop env [f] st
   \<and> onDrop env (f # rest) gs = onDrop env [f] gs
   \<and> (prefix (ascii ''image/'') (file_type f) \<longrightarrow>
        handleDrop env (f # rest) st = processFile env f (st\<lparr>isDragActive := False\<rparr>)
        \<and> onDrop env (f # rest) gs = handleDragDrop env f gs)
   \<and> (\<not> prefix (ascii ''image/'') (file_type f) \<longrightarrow>
        handleDrop env (f # rest) st = st\<lparr>isDragActive := False\<rparr>
        \<and> onDrop env (f # rest) gs = gs)
   \<and> handleDrop env [] st = st\<lparr>isDragActive := False\<rparr>
   \<and> onDrop env [] gs = gs"
  by (simp add: handleDrop_def onDrop_def)

theorem drop_first_image_only_witness:
  "handleDrop (browser (10, 10) offline) [textFile 100, pngFile 5000] analyzer_init
     = analyzer_init
   \<and> onDrop (browser (10, 10) offline) [textFile 100, pngFile 5000] grove_init = grove_init
   \<and> handleDrop (browser (10, 10) offline) [pngFile 5000, textFile 100] analyzer_init
     = processFile (browser (10, 10) offline) (pngFile 5000) analyzer_init
   \<and> onDrop (browser (10, 10) offline) [pngFile 5000, textFile 100] grove_init
     = handleDragDrop (browser (10, 10) offline) (pngFile 5000) grove_init"
proof -
  have t: "\<not> prefix (ascii ''image/'') (file_type (textFile 100))"
    by (simp add: textFile_def ascii_def)
  have p: "prefix (ascii ''image/'') (file_type (pngFile 5000))"
    by (simp add: pngFile_def ascii_def)
  have i: "analyzer_init\<lparr>isDragActive := False\<rparr> = analyzer_init"
    by (simp add: analyzer_init_def)
  show ?thesis
    using t p
      drop_first_image_only [of "browser (10, 10) offline" "textFile 100" "[pngFile 5000]"
        analyzer_init grove_init]
      drop_first_image_only [of "browser (10, 10) offline" "pngFile 5000" "[textFile 100]"
        analyzer_init grove_init]
    by (metis i)
qed


section \<open>Result and error\<close>



















end
